theory Spec2Isabelle
  imports Main
begin

section \<open>The Go standard library, as far as the client calls it\<close>

text \<open>
  The client is written on top of \<^verbatim>\<open>encoding/json\<close>, \<^verbatim>\<open>time\<close>, \<^verbatim>\<open>net/url\<close> and
  \<^verbatim>\<open>net/http\<close>. This section fixes how their values are represented.

  \<^item> A byte slice that holds JSON text is represented by the syntax tree of that text
    (type \<open>json\<close>). A \<^verbatim>\<open>json.RawMessage\<close> is therefore a tree as well: white space
    between tokens and the spelling of a literal are not part of it. The scanner that
    turns bytes into a tree is not modelled; at the one place where bytes of unknown
    content meet it (the body of an HTTP response) it is a parameter.
  \<^item> A Go \<^verbatim>\<open>string\<close> is a list of bytes (\<open>string\<close>), in UTF-8.
  \<^item> Go's \<^verbatim>\<open>int\<close> is the 64-bit integer of the usual targets; values are kept as
    \<open>int\<close> and the range check of the decoder is written out.
  \<^item> A slice is the list of its elements. Where the \<^verbatim>\<open>nil\<close> slice and an empty slice
    behave differently, under \<^verbatim>\<open>json.Marshal\<close>, the slice value is made explicit (type
    \<open>slice\<close>, with the encoder of the records).
  \<^item> A panic is the error value \<open>Panic\<close>.
\<close>

subsection \<open>JSON values\<close>

text \<open>
  \<open>JInt i\<close> is a number literal without fraction and exponent, \<open>JDec m e\<close> any other
  number literal, of value \<open>m * 10 ^ e\<close>. The members of an object are kept in the order
  of the text, duplicates included.
\<close>

datatype json =
    JNull
  | JBool bool
  | JInt int
  | JDec int int
  | JString string
  | JArray "json list"
  | JObject "(string \<times> json) list"

subsection \<open>Error values\<close>

record ErrorMessage =
  Code :: string
  Message :: string

record http_Response =
  StatusCode :: int

record ErrorResponse =
  Response :: http_Response
  Message' :: string

text \<open>
  One constructor for each dynamic type of \<^verbatim>\<open>error\<close> that can reach the client:
  \<^verbatim>\<open>*json.SyntaxError\<close>, \<^verbatim>\<open>*json.UnmarshalTypeError\<close> (the JSON value met and the Go type
  it was meant for), \<^verbatim>\<open>*time.ParseError\<close> (Layout, Value, LayoutElem, ValueElem, Message),
  the sentinel \<^verbatim>\<open>ErrUnsupportedDNSType\<close>, the client's own \<^verbatim>\<open>*ErrorMessage\<close> and
  \<^verbatim>\<open>*ErrorResponse\<close>, an error wrapped by \<^verbatim>\<open>fmt.Errorf("<context>: %w", err)\<close>, and an
  error of the network or of a stream, known by its text only.
\<close>

datatype error =
    SyntaxError string
  | UnmarshalTypeError string string
  | ParseError string string string string string
  | ErrUnsupportedDNSType
  | ErrorMessage_error ErrorMessage
  | ErrorResponse_error ErrorResponse
  | Errorf string error
  | Failure string
  | Panic string

subsection \<open>Decoding a JSON value into a Go value\<close>

text \<open>
  \<^verbatim>\<open>json.Unmarshal\<close> walks the value and the target together. A value of the wrong kind
  for its target is not fatal: the decoder remembers the first such error, skips the value
  and goes on; the error is returned at the end. An error returned by an \<^verbatim>\<open>UnmarshalJSON\<close>
  method stops the decoder at once. A step of the walk hence returns \<open>Inl e\<close> (stop), or
  \<open>Inr (saved, v)\<close>: the remembered error, if any, and the target as it now is.
  JSON \<open>null\<close> leaves a number or a string as it is, and makes a slice \<open>nil\<close>.
  In an \<^verbatim>\<open>UnmarshalTypeError\<close> the JSON value is described by its kind (for a number that
  does not fit its target Go adds the literal, which a tree does not keep), and the Go type
  by its name.
\<close>

fun describe :: "json \<Rightarrow> string" where
  "describe JNull = ''null''"
| "describe (JBool _) = ''bool''"
| "describe (JInt _) = ''number''"
| "describe (JDec _ _) = ''number''"
| "describe (JString _) = ''string''"
| "describe (JArray _) = ''array''"
| "describe (JObject _) = ''object''"

fun first_error :: "error option \<Rightarrow> error option \<Rightarrow> error option" where
  "first_error (Some e) _ = Some e"
| "first_error None e = e"

definition store_string :: "json \<Rightarrow> string \<Rightarrow> error option \<times> string" where
  "store_string j old =
     (case j of
        JNull \<Rightarrow> (None, old)
      | JString s \<Rightarrow> (None, s)
      | _ \<Rightarrow> (Some (UnmarshalTypeError (describe j) ''string''), old))"

definition store_int :: "json \<Rightarrow> int \<Rightarrow> error option \<times> int" where
  "store_int j old =
     (case j of
        JNull \<Rightarrow> (None, old)
      | JInt i \<Rightarrow>
          (if - (2 ^ 63) \<le> i \<and> i < 2 ^ 63 then (None, i)
           else (Some (UnmarshalTypeError (describe j) ''int''), old))
      | _ \<Rightarrow> (Some (UnmarshalTypeError (describe j) ''int''), old))"

text \<open>
  A \<^verbatim>\<open>float64\<close> is kept as the decimal number it was read from, \<open>Float64 m e\<close> for
  \<open>m * 10 ^ e\<close>; the rounding to binary is not modelled. \<^verbatim>\<open>strconv.ParseFloat\<close> fails
  when the value rounds to an infinity, that is from \<open>2 ^ 1024 - 2 ^ 970\<close> on.
\<close>

datatype float64 = Float64 int int

definition float64_overflows :: "int \<Rightarrow> int \<Rightarrow> bool" where
  "float64_overflows m e =
     (if 0 \<le> e then 2 ^ 1024 - 2 ^ 970 \<le> \<bar>m\<bar> * 10 ^ nat e
      else (2 ^ 1024 - 2 ^ 970) * 10 ^ nat (- e) \<le> \<bar>m\<bar>)"

definition store_float64 :: "json \<Rightarrow> float64 \<Rightarrow> error option \<times> float64" where
  "store_float64 j old =
     (case j of
        JNull \<Rightarrow> (None, old)
      | JInt i \<Rightarrow>
          (if float64_overflows i 0 then (Some (UnmarshalTypeError (describe j) ''float64''), old)
           else (None, Float64 i 0))
      | JDec m e \<Rightarrow>
          (if float64_overflows m e then (Some (UnmarshalTypeError (describe j) ''float64''), old)
           else (None, Float64 m e))
      | _ \<Rightarrow> (Some (UnmarshalTypeError (describe j) ''float64''), old))"

text \<open>
  A JSON array read into a slice: the slice is emptied and every element is decoded into a
  fresh zero value \<open>z\<close>, appended in order.
\<close>

fun store_elems :: "(json \<Rightarrow> 'v \<Rightarrow> error option \<times> 'v) \<Rightarrow> 'v \<Rightarrow> json list \<Rightarrow> error option \<times> 'v list" where
  "store_elems st z [] = (None, [])"
| "store_elems st z (j # js) =
     (case st j z of (e, v) \<Rightarrow>
        (case store_elems st z js of (es, vs) \<Rightarrow> (first_error e es, v # vs)))"

definition store_slice ::
  "string \<Rightarrow> (json \<Rightarrow> 'v \<Rightarrow> error option \<times> 'v) \<Rightarrow> 'v \<Rightarrow> json \<Rightarrow> 'v list \<Rightarrow> error option \<times> 'v list" where
  "store_slice ty st z j old =
     (case j of
        JNull \<Rightarrow> (None, [])
      | JArray js \<Rightarrow> store_elems st z js
      | _ \<Rightarrow> (Some (UnmarshalTypeError (describe j) ty), old))"

type_synonym 'a setter = "json \<Rightarrow> 'a \<Rightarrow> error + (error option \<times> 'a)"

text \<open>
  \<open>plain st get upd\<close> is the step for a struct field of a plain type: \<open>get\<close> and \<open>upd\<close>
  read and write the field, \<open>st\<close> decodes its type.
\<close>

definition plain ::
  "(json \<Rightarrow> 'v \<Rightarrow> error option \<times> 'v) \<Rightarrow> ('a \<Rightarrow> 'v) \<Rightarrow> (('v \<Rightarrow> 'v) \<Rightarrow> 'a \<Rightarrow> 'a) \<Rightarrow> 'a setter" where
  "plain st get upd j s = (case st j (get s) of (e, v) \<Rightarrow> Inr (e, upd (\<lambda>_. v) s))"

text \<open>
  A key of a JSON object selects the struct field whose name is the key; failing that, the
  first field whose name equals the key under Unicode simple case folding. The field names
  of the client are ASCII, and the only characters outside ASCII that fold to an ASCII
  letter are the Kelvin sign (U+212A, bytes E2 84 AA) and the long s (U+017F, bytes C5 BF).
\<close>

definition upper_byte :: "char \<Rightarrow> char" where
  "upper_byte c =
     (let n = (of_char c :: nat) in if 97 \<le> n \<and> n \<le> 122 then char_of (n - 32) else c)"

fun foldName :: "string \<Rightarrow> string" where
  "foldName [] = []"
| "foldName [a] = [upper_byte a]"
| "foldName [a, b] =
     (if a = CHR 0xC5 \<and> b = CHR 0xBF then ''S'' else [upper_byte a, upper_byte b])"
| "foldName (a # b # c # cs) =
     (if a = CHR 0xE2 \<and> b = CHR 0x84 \<and> c = CHR 0xAA then CHR ''K'' # foldName cs
      else if a = CHR 0xC5 \<and> b = CHR 0xBF then CHR ''S'' # foldName (c # cs)
      else upper_byte a # foldName (b # c # cs))"

definition find_field :: "string \<Rightarrow> (string \<times> 'b) list \<Rightarrow> 'b option" where
  "find_field key fs =
     (case map_of fs key of
        Some f \<Rightarrow> Some f
      | None \<Rightarrow> map_of (map (\<lambda>(n, f). (foldName n, f)) fs) (foldName key))"

fun decode_members ::
  "(string \<times> 'a setter) list \<Rightarrow> (string \<times> json) list \<Rightarrow> error option \<Rightarrow> 'a \<Rightarrow> error + (error option \<times> 'a)" where
  "decode_members fs [] saved s = Inr (saved, s)"
| "decode_members fs ((k, v) # ms) saved s =
     (case find_field k fs of
        None \<Rightarrow> decode_members fs ms saved s
      | Some set_field \<Rightarrow>
          (case set_field v s of
             Inl e \<Rightarrow> Inl e
           | Inr (e, s') \<Rightarrow> decode_members fs ms (first_error saved e) s'))"

text \<open>A JSON value read into a struct with the fields \<open>fs\<close>; \<open>ty\<close> is the name of its type.\<close>

definition into_struct :: "string \<Rightarrow> (string \<times> 'a setter) list \<Rightarrow> 'a setter" where
  "into_struct ty fs j s =
     (case j of
        JNull \<Rightarrow> Inr (None, s)
      | JObject ms \<Rightarrow> decode_members fs ms None s
      | _ \<Rightarrow> Inr (Some (UnmarshalTypeError (describe j) ty), s))"

text \<open>
  \<^verbatim>\<open>json.Unmarshal(data, &v)\<close> for JSON text \<open>data\<close>: the target on success, the error
  otherwise (the client never reads a target after an error).
\<close>

definition json_Unmarshal :: "'a setter \<Rightarrow> json \<Rightarrow> 'a \<Rightarrow> error + 'a" where
  "json_Unmarshal set_v data v =
     (case set_v data v of
        Inl e \<Rightarrow> Inl e
      | Inr (Some e, _) \<Rightarrow> Inl e
      | Inr (None, v') \<Rightarrow> Inr v')"


subsection \<open>Package time\<close>

text \<open>
  A \<^verbatim>\<open>time.Time\<close> is an instant and a location. Without a monotonic clock reading Go
  keeps the nanoseconds of the second in \<^verbatim>\<open>wall\<close> and the seconds since January 1 of the
  year 1, 00:00:00 UTC, in \<^verbatim>\<open>ext\<close>; \<^verbatim>\<open>loc\<close> is \<^verbatim>\<open>nil\<close> for UTC (here \<open>None\<close>) or
  points to a zone, here a fixed zone given by its name and its offset in seconds east of
  UTC. The zone database of the machine (\<^verbatim>\<open>time.Local\<close>) is not modelled: \<^verbatim>\<open>time.Parse\<close>
  is taken to find no zone abbreviation in it.
\<close>

record Time =
  wall :: int
  ext :: int
  loc :: "(string \<times> int) option"

definition isLeap :: "int \<Rightarrow> bool" where
  "isLeap year = (year mod 4 = 0 \<and> (year mod 100 \<noteq> 0 \<or> year mod 400 = 0))"

definition daysBefore :: "int list" where
  "daysBefore = [0, 31, 59, 90, 120, 151, 181, 212, 243, 273, 304, 334, 365]"

definition daysIn :: "int \<Rightarrow> int \<Rightarrow> int" where
  "daysIn m year =
     (if m = 2 \<and> isLeap year then 29 else daysBefore ! nat m - daysBefore ! nat (m - 1))"

text \<open>
  \<^verbatim>\<open>time.Date\<close> in UTC, for a month from 1 to 12 and fields within their ranges (the only
  way \<^verbatim>\<open>time.Parse\<close> calls it): the days since January 1 of the year 1 in the proleptic
  Gregorian calendar, and the seconds.
\<close>

definition days_from_civil :: "int \<Rightarrow> int \<Rightarrow> int \<Rightarrow> int" where
  "days_from_civil year m day =
     365 * (year - 1) + (year - 1) div 4 - (year - 1) div 100 + (year - 1) div 400 +
     daysBefore ! nat (m - 1) + (if isLeap year \<and> 3 \<le> m then 1 else 0) + (day - 1)"

definition Date_UTC :: "int \<Rightarrow> int \<Rightarrow> int \<Rightarrow> int \<Rightarrow> int \<Rightarrow> int \<Rightarrow> int \<Rightarrow> Time" where
  "Date_UTC year m day hour mi s ns =
     \<lparr>wall = ns,
      ext = days_from_civil year m day * 86400 + hour * 3600 + mi * 60 + s,
      loc = None\<rparr>"


subsubsection \<open>Format\<close>

fun itoa :: "nat \<Rightarrow> string" where
  "itoa n = (if n < 10 then [char_of (48 + n)] else itoa (n div 10) @ [char_of (48 + n mod 10)])"

declare itoa.simps [simp del]



subsubsection \<open>Parse\<close>

text \<open>
  \<^verbatim>\<open>time.Parse\<close> walks the layout chunk by chunk; \<^verbatim>\<open>nextStdChunk\<close> splits the layout
  \<^verbatim>\<open>2006-01-02 15:04:05 MST\<close> into the chunks of \<open>layout_chunks\<close>, each a literal prefix and
  a field. A space of the layout stands for any number of spaces of the value.
\<close>

datatype std = stdLongYear | stdZeroMonth | stdZeroDay | stdHour | stdZeroMinute | stdZeroSecond | stdTZ

definition layout :: string where
  "layout = ''2006-01-02 15:04:05 MST''"

definition layout_chunks :: "(string \<times> std \<times> string) list" where
  "layout_chunks =
     [('''', stdLongYear, ''2006''), (''-'', stdZeroMonth, ''01''), (''-'', stdZeroDay, ''02''),
      ('' '', stdHour, ''15''), ('':'', stdZeroMinute, ''04''), ('':'', stdZeroSecond, ''05''),
      ('' '', stdTZ, ''MST'')]"

definition cutspace :: "string \<Rightarrow> string" where
  "cutspace s = dropWhile (\<lambda>c. c = CHR '' '') s"

function skip :: "string \<Rightarrow> string \<Rightarrow> string + string" where
  "skip v [] = Inr v"
| "skip v (p # ps) =
     (if p = CHR '' '' then
        (if v \<noteq> [] \<and> hd v \<noteq> CHR '' '' then Inl v
         else skip (cutspace v) (cutspace ps))
      else (case v of
              [] \<Rightarrow> Inl v
            | c # cs \<Rightarrow> if c \<noteq> p then Inl v else skip cs ps))"
  by pat_completeness auto
termination
  by (relation "measure (\<lambda>(v, p). length p)")
    (auto simp: cutspace_def length_dropWhile_le less_Suc_eq_le)

definition is_digit :: "char \<Rightarrow> bool" where
  "is_digit c = (48 \<le> (of_char c :: nat) \<and> (of_char c :: nat) \<le> 57)"

definition is_upper :: "char \<Rightarrow> bool" where
  "is_upper c = (65 \<le> (of_char c :: nat) \<and> (of_char c :: nat) \<le> 90)"

definition isDigit :: "string \<Rightarrow> nat \<Rightarrow> bool" where
  "isDigit s i = (i < length s \<and> is_digit (s ! i))"

definition digit_val :: "char \<Rightarrow> int" where
  "digit_val c = int (of_char c) - 48"

text \<open>The value of a digit string, most significant digit first.\<close>

definition digits_val :: "string \<Rightarrow> int" where
  "digits_val ds = foldl (\<lambda>n c. 10 * n + digit_val c) 0 ds"

text \<open>\<^verbatim>\<open>getnum\<close>: one or two digits; \<open>None\<close> is \<^verbatim>\<open>errBad\<close>.\<close>

definition getnum :: "string \<Rightarrow> bool \<Rightarrow> (int \<times> string) option" where
  "getnum s fixed =
     (if \<not> isDigit s 0 then None
      else if \<not> isDigit s 1 then (if fixed then None else Some (digit_val (s ! 0), drop 1 s))
      else Some (digit_val (s ! 0) * 10 + digit_val (s ! 1), drop 2 s))"

text \<open>Zone abbreviations: \<^verbatim>\<open>parseSignedOffset\<close>, \<^verbatim>\<open>parseGMT\<close>, \<^verbatim>\<open>parseTimeZone\<close>.\<close>

definition parseSignedOffset :: "string \<Rightarrow> nat" where
  "parseSignedOffset v =
     (case v of
        [] \<Rightarrow> 0
      | sign # rest \<Rightarrow>
          (if sign \<noteq> CHR ''-'' \<and> sign \<noteq> CHR ''+'' then 0
           else (let ds = takeWhile is_digit rest
                 in if ds = [] \<or> 23 < digits_val ds then 0 else 1 + length ds)))"

definition parseGMT :: "string \<Rightarrow> nat" where
  "parseGMT v = (if drop 3 v = [] then 3 else 3 + parseSignedOffset (drop 3 v))"

definition parseTimeZone :: "string \<Rightarrow> nat option" where
  "parseTimeZone v =
     (if length v < 3 then None
      else if 4 \<le> length v \<and> (take 4 v = ''ChST'' \<or> take 4 v = ''MeST'') then Some 4
      else if take 3 v = ''GMT'' then Some (parseGMT v)
      else if hd v = CHR ''+'' \<or> hd v = CHR ''-'' then
        (if 0 < parseSignedOffset v then Some (parseSignedOffset v) else None)
      else
        (let nUpper = length (takeWhile is_upper (take 6 v))
         in if nUpper = 5 then (if v ! 4 = CHR ''T'' then Some 5 else None)
            else if nUpper = 4 then
              (if v ! 3 = CHR ''T'' \<or> take 4 v = ''WITA'' then Some 4 else None)
            else if nUpper = 3 then Some 3
            else None))"

text \<open>The fields \<^verbatim>\<open>Parse\<close> collects, with the values they start from.\<close>

record parsed =
  p_year :: int
  p_month :: int
  p_day :: int
  p_hour :: int
  p_min :: int
  p_sec :: int
  p_nsec :: int
  p_utc :: bool
  p_zoneName :: string

definition parsed_init :: parsed where
  "parsed_init =
     \<lparr>p_year = 0, p_month = - 1, p_day = - 1, p_hour = 0, p_min = 0, p_sec = 0, p_nsec = 0,
      p_utc = False, p_zoneName = ''''\<rparr>"

text \<open>
  One field. \<open>Bad\<close> is \<^verbatim>\<open>errBad\<close>, \<open>OutOfRange what rest\<close> a value out of range (with the
  input left after it), \<open>Parsed st rest\<close> the fields so far and the input left.
\<close>

datatype field_result = Bad | OutOfRange string string | Parsed parsed string

definition parse_std :: "std \<Rightarrow> string \<Rightarrow> parsed \<Rightarrow> field_result" where
  "parse_std s v st =
     (case s of
        stdLongYear \<Rightarrow>
          (if length v < 4 \<or> \<not> isDigit v 0 then Bad
           else if \<not> list_all is_digit (take 4 v) then Bad
           else Parsed (st\<lparr>p_year := digits_val (take 4 v)\<rparr>) (drop 4 v))
      | stdZeroMonth \<Rightarrow>
          (case getnum v True of
             None \<Rightarrow> Bad
           | Some (n, rest) \<Rightarrow>
               if n \<le> 0 \<or> 12 < n then OutOfRange ''month'' rest
               else Parsed (st\<lparr>p_month := n\<rparr>) rest)
      | stdZeroDay \<Rightarrow>
          (case getnum v True of
             None \<Rightarrow> Bad
           | Some (n, rest) \<Rightarrow> Parsed (st\<lparr>p_day := n\<rparr>) rest)
      | stdHour \<Rightarrow>
          (case getnum v False of
             None \<Rightarrow> Bad
           | Some (n, rest) \<Rightarrow>
               if n < 0 \<or> 24 \<le> n then OutOfRange ''hour'' rest
               else Parsed (st\<lparr>p_hour := n\<rparr>) rest)
      | stdZeroMinute \<Rightarrow>
          (case getnum v True of
             None \<Rightarrow> Bad
           | Some (n, rest) \<Rightarrow>
               if n < 0 \<or> 60 \<le> n then OutOfRange ''minute'' rest
               else Parsed (st\<lparr>p_min := n\<rparr>) rest)
      | stdZeroSecond \<Rightarrow>
          (case getnum v True of
             None \<Rightarrow> Bad
           | Some (n, rest) \<Rightarrow>
               if n < 0 \<or> 60 \<le> n then OutOfRange ''second'' rest
               else if 2 \<le> length rest \<and> (hd rest = CHR ''.'' \<or> hd rest = CHR '','') \<and> isDigit rest 1
               then
                 (let ds = takeWhile is_digit (tl rest);
                      ds9 = take 9 ds
                  in Parsed (st\<lparr>p_sec := n, p_nsec := digits_val ds9 * 10 ^ (9 - length ds9)\<rparr>)
                       (drop (1 + length ds) rest))
               else Parsed (st\<lparr>p_sec := n\<rparr>) rest)
      | stdTZ \<Rightarrow>
          (if 3 \<le> length v \<and> take 3 v = ''UTC'' then Parsed (st\<lparr>p_utc := True\<rparr>) (drop 3 v)
           else (case parseTimeZone v of
                   None \<Rightarrow> Bad
                 | Some n \<Rightarrow> Parsed (st\<lparr>p_zoneName := take n v\<rparr>) (drop n v))))"

text \<open>\<^verbatim>\<open>quote\<close> of package time, as it is used in the messages of a \<^verbatim>\<open>ParseError\<close>.\<close>

definition lowerhex :: "nat \<Rightarrow> char" where
  "lowerhex n = (if n < 10 then char_of (48 + n) else char_of (87 + n))"

definition quote_byte :: "char \<Rightarrow> string" where
  "quote_byte c =
     (let n = (of_char c :: nat)
      in if 128 \<le> n \<or> n < 32 then [CHR 0x5C, CHR ''x'', lowerhex (n div 16), lowerhex (n mod 16)]
         else if c = CHR 0x22 \<or> c = CHR 0x5C then [CHR 0x5C, c]
         else [c])"

definition quote :: "string \<Rightarrow> string" where
  "quote s = [CHR 0x22] @ concat (map quote_byte s) @ [CHR 0x22]"

fun parse_chunks ::
  "string \<Rightarrow> (string \<times> std \<times> string) list \<Rightarrow> string \<Rightarrow> parsed \<Rightarrow> error + (parsed \<times> string)" where
  "parse_chunks avalue [] v st =
     (if v \<noteq> [] then Inl (ParseError layout avalue '''' v ('': extra text: '' @ quote v))
      else Inr (st, v))"
| "parse_chunks avalue ((prefix, s, stdstr) # cs) v st =
     (case skip v prefix of
        Inl v' \<Rightarrow> Inl (ParseError layout avalue prefix v' '''')
      | Inr v' \<Rightarrow>
          (case parse_std s v' st of
             Bad \<Rightarrow> Inl (ParseError layout avalue stdstr v' '''')
           | OutOfRange what rest \<Rightarrow>
               Inl (ParseError layout avalue stdstr rest ('': '' @ what @ '' out of range''))
           | Parsed st' rest \<Rightarrow> parse_chunks avalue cs rest st'))"

text \<open>
  \<^verbatim>\<open>time.Parse("2006-01-02 15:04:05 MST", value)\<close>. A zone abbreviation other than UTC
  makes a zone of that name, with offset zero unless the name is \<^verbatim>\<open>GMT\<close> with a signed
  number of hours; the instant is the one of the same fields read in UTC.
\<close>

definition atoi_signed :: "string \<Rightarrow> int" where
  "atoi_signed s =
     (case s of
        [] \<Rightarrow> 0
      | c # cs \<Rightarrow>
          if c = CHR ''-'' then - digits_val cs
          else if c = CHR ''+'' then digits_val cs
          else digits_val s)"

definition Parse_layout :: "string \<Rightarrow> error + Time" where
  "Parse_layout avalue =
     (case parse_chunks avalue layout_chunks avalue parsed_init of
        Inl err \<Rightarrow> Inl err
      | Inr (st, v) \<Rightarrow>
          (if p_day st < 1 \<or> daysIn (p_month st) (p_year st) < p_day st then
             Inl (ParseError layout avalue '''' v '': day out of range'')
           else
             (let t = Date_UTC (p_year st) (p_month st) (p_day st) (p_hour st) (p_min st)
                        (p_sec st) (p_nsec st)
              in if p_utc st then Inr t
                 else
                   (let name = p_zoneName st;
                        offset = (if 3 < length name \<and> take 3 name = ''GMT''
                                  then atoi_signed (drop 3 name) * 3600 else 0)
                    in Inr (t\<lparr>loc := Some (name, offset)\<rparr>)))))"

text \<open>The text of a \<^verbatim>\<open>time.ParseError\<close>.\<close>

definition ParseError_Error :: "string \<Rightarrow> string \<Rightarrow> string \<Rightarrow> string \<Rightarrow> string \<Rightarrow> string" where
  "ParseError_Error lay val layElem valElem msg =
     (if msg = '''' then
        ''parsing time '' @ quote val @ '' as '' @ quote lay @ '': cannot parse '' @
        quote valElem @ '' as '' @ quote layElem
      else ''parsing time '' @ quote val @ msg)"

text \<open>\<^verbatim>\<open>strconv.Itoa\<close>.\<close>

definition Itoa :: "int \<Rightarrow> string" where
  "Itoa i = (if i < 0 then ''-'' else '''') @ itoa (nat \<bar>i\<bar>)"

subsection \<open>Packages strings, net/url and net/http\<close>

text \<open>\<^verbatim>\<open>strings.ToUpper\<close>, for ASCII text: a byte outside ASCII is left as it is.\<close>

definition ToUpper :: "string \<Rightarrow> string" where
  "ToUpper s = map upper_byte s"

text \<open>
  \<^verbatim>\<open>url.Values\<close> maps a key to a list of values. The encoded query of a URL is kept as
  the \<^verbatim>\<open>url.Values\<close> that it encodes; \<^verbatim>\<open>Encode\<close> writes nothing for a key without
  values, and \<^verbatim>\<open>URL.Query\<close> reads the encoded query back.
\<close>

type_synonym Values = "string \<rightharpoonup> string list"

definition Values_Set :: "string \<Rightarrow> string \<Rightarrow> Values \<Rightarrow> Values" where
  "Values_Set key v q = q(key \<mapsto> [v])"

definition Values_Encode :: "Values \<Rightarrow> Values" where
  "Values_Encode q = (\<lambda>key. case q key of Some [] \<Rightarrow> None | vs \<Rightarrow> vs)"

text \<open>
  A \<^verbatim>\<open>url.URL\<close>: its text without the query, its encoded query, and what \<^verbatim>\<open>url.Parse\<close>
  makes of its text: \<open>Unparsable\<close> is the error, if there is one. (A URL that was made by
  \<^verbatim>\<open>url.Parse\<close> has none; a caller can hand \<^verbatim>\<open>NewClient\<close> any \<^verbatim>\<open>url.URL\<close>.)
\<close>

record URL =
  Location :: string
  RawQuery :: Values
  Unparsable :: "error option"

definition URL_Query :: "URL \<Rightarrow> Values" where
  "URL_Query u = RawQuery u"

record http_Request =
  Method :: string
  URL :: URL
  Header :: "(string \<times> string) list"

text \<open>
  \<^verbatim>\<open>http.NewRequest(method, u.String(), nil)\<close>, for a method that is a valid token (the
  client only passes \<^verbatim>\<open>GET\<close>): it fails when the text of the URL does not parse.
\<close>

definition http_NewRequest :: "string \<Rightarrow> URL \<Rightarrow> error + http_Request" where
  "http_NewRequest method u =
     (case Unparsable u of
        Some err \<Rightarrow> Inl err
      | None \<Rightarrow> Inr \<lparr>Method = method, URL = u, Header = []\<rparr>)"

text \<open>
  What the HTTP stack does with one request, seen from \<^verbatim>\<open>Client.Do\<close>: either
  \<^verbatim>\<open>http.Client.Do\<close> returns an error, or it returns a response, \<^verbatim>\<open>io.Copy\<close> delivers some
  bytes of the body and perhaps an error, and closing the body perhaps returns an error.
  The context of the call, with its deadline and cancellation, is part of this behaviour.
\<close>

datatype exchange =
    NoResponse error
  | Responded http_Response string "error option" "error option"

section \<open>The record shapes (models.go)\<close>

text \<open>
  Every record carries the common fields; a concrete shape embeds them and adds its own.
  A field \<open>F\<close> of the shape for tag \<open>T\<close> is named \<open>T_F\<close>, since field names are global here.
\<close>

record commonFields =
  Type :: int
  DNSType :: string
  Name :: string
  TTL :: int
  RRsetType :: int
  RawText :: string

record ARecord = commonFields +
  A_Address :: string

record AAAARecord = commonFields +
  AAAA_Address :: string

record NSRecord = commonFields +
  NS_Target :: string

record MXRecord = commonFields +
  MX_Target :: string
  MX_Priority :: int

record MDRecord = commonFields +
  MD_AdditionalName :: string
  MD_MailAgent :: string

record MFRecord = commonFields +
  MF_AdditionalName :: string
  MF_MailAgent :: string

record MBRecord = commonFields +
  MB_AdditionalName :: string
  MB_Mailbox :: string

record SOARecord = commonFields +
  SOA_Admin :: string
  SOA_Host :: string
  SOA_Expire :: int
  SOA_Minimum :: int
  SOA_Refresh :: int
  SOA_Retry :: int
  SOA_Serial :: int

record TXTRecord = commonFields +
  TXT_Strings :: "string list"

record CAARecord = commonFields +
  CAA_Flags :: int
  CAA_Tag :: string
  CAA_Value :: string

record CNAMERecord = commonFields +
  CNAME_Alias :: string
  CNAME_Target :: string

record DNAMERecord = commonFields +
  DNAME_Alias :: string
  DNAME_Target :: string

record DNSKEYRecord = commonFields +
  DNSKEY_Algorithm :: int
  DNSKEY_Flags :: int
  DNSKEY_Footprint :: int
  DNSKEY_Key :: "string list"
  DNSKEY_Protocol :: int
  DNSKEY_PublicKey :: string

record NSEC3PARAMRecord = commonFields +
  NSEC3PARAM_Flags :: int
  NSEC3PARAM_HashAlgorithm :: int
  NSEC3PARAM_Iterations :: int
  NSEC3PARAM_Salt :: "string list"

record NSECRecord = commonFields +
  NSEC_Next :: string
  NSEC_Types :: "int list"

record DSRecord = commonFields +
  DS_Algorithm :: int
  DS_Digest :: "string list"
  DS_DigestID :: int
  DS_Footprint :: int

record PTRRecord = commonFields +
  PTR_Target :: string

record SRVRecord = commonFields +
  SRV_Port :: int
  SRV_Priority :: int
  SRV_Target :: string
  SRV_Weight :: int

record LOCRecord = commonFields +
  LOC_Altitude :: float64
  LOC_HPrecision :: float64
  LOC_Latitude :: float64
  LOC_Longitude :: float64
  LOC_Size :: float64
  LOC_VPrecision :: float64

record NAPTRRecord = commonFields +
  NAPTR_Flags :: string
  NAPTR_Order :: int
  NAPTR_Preference :: int
  NAPTR_Regexp :: string
  NAPTR_Replacement :: string
  NAPTR_Service :: string

record HINFORecord = commonFields +
  HINFO_CPU :: string
  HINFO_OS :: string

record RPRecord = commonFields +
  RP_Mailbox :: string
  RP_TextDomain :: string

record DLVRecord = commonFields +
  DLV_Algorithm :: int
  DLV_Digest :: "string list"
  DLV_DigestID :: int
  DLV_Footprint :: int

record SSHFPRecord = commonFields +
  SSHFP_Algorithm :: int
  SSHFP_DigestType :: int
  SSHFP_FingerPrint :: "string list"

record DHCIDRecord = commonFields +
  DHCID_Data :: "string list"

record TLSARecord = commonFields +
  TLSA_CertificateAssociationData :: "string list"
  TLSA_CertificateUsage :: int
  TLSA_MatchingType :: int
  TLSA_Selector :: int

record NSAPRecord = commonFields +
  NSAP_Address :: string

record NULLRecord = commonFields +
  NULL_Data :: "string list"

text \<open>The zero value \<^verbatim>\<open>commonFields{}\<close>, and the fields with their JSON names.\<close>

definition commonFields_zero :: commonFields where
  "commonFields_zero = \<lparr>Type = 0, DNSType = '''', Name = '''', TTL = 0, RRsetType = 0, RawText = ''''\<rparr>"

definition commonFields_fields :: "(string \<times> 'z commonFields_scheme setter) list" where
  "commonFields_fields =
     [(''type'', plain store_int Type Type_update),
      (''dnsType'', plain store_string DNSType DNSType_update),
      (''name'', plain store_string Name Name_update),
      (''ttl'', plain store_int TTL TTL_update),
      (''rRsetType'', plain store_int RRsetType RRsetType_update),
      (''rawText'', plain store_string RawText RawText_update)]"

definition ARecord_zero :: ARecord where
  "ARecord_zero = \<lparr>Type = 0, DNSType = '''', Name = '''', TTL = 0, RRsetType = 0, RawText = '''', A_Address = ''''\<rparr>"

definition ARecord_fields :: "(string \<times> ARecord setter) list" where
  "ARecord_fields =
     commonFields_fields @
       [(''address'', plain store_string A_Address A_Address_update)]"

definition AAAARecord_zero :: AAAARecord where
  "AAAARecord_zero = \<lparr>Type = 0, DNSType = '''', Name = '''', TTL = 0, RRsetType = 0, RawText = '''', AAAA_Address = ''''\<rparr>"

definition AAAARecord_fields :: "(string \<times> AAAARecord setter) list" where
  "AAAARecord_fields =
     commonFields_fields @
       [(''address'', plain store_string AAAA_Address AAAA_Address_update)]"

definition NSRecord_zero :: NSRecord where
  "NSRecord_zero = \<lparr>Type = 0, DNSType = '''', Name = '''', TTL = 0, RRsetType = 0, RawText = '''', NS_Target = ''''\<rparr>"

definition NSRecord_fields :: "(string \<times> NSRecord setter) list" where
  "NSRecord_fields =
     commonFields_fields @
       [(''target'', plain store_string NS_Target NS_Target_update)]"

definition MXRecord_zero :: MXRecord where
  "MXRecord_zero = \<lparr>Type = 0, DNSType = '''', Name = '''', TTL = 0, RRsetType = 0, RawText = '''', MX_Target = '''', MX_Priority = 0\<rparr>"

definition MXRecord_fields :: "(string \<times> MXRecord setter) list" where
  "MXRecord_fields =
     commonFields_fields @
       [(''target'', plain store_string MX_Target MX_Target_update),
        (''priority'', plain store_int MX_Priority MX_Priority_update)]"

definition MDRecord_zero :: MDRecord where
  "MDRecord_zero = \<lparr>Type = 0, DNSType = '''', Name = '''', TTL = 0, RRsetType = 0, RawText = '''', MD_AdditionalName = '''', MD_MailAgent = ''''\<rparr>"

definition MDRecord_fields :: "(string \<times> MDRecord setter) list" where
  "MDRecord_fields =
     commonFields_fields @
       [(''additionalName'', plain store_string MD_AdditionalName MD_AdditionalName_update),
        (''mailAgent'', plain store_string MD_MailAgent MD_MailAgent_update)]"

definition MFRecord_zero :: MFRecord where
  "MFRecord_zero = \<lparr>Type = 0, DNSType = '''', Name = '''', TTL = 0, RRsetType = 0, RawText = '''', MF_AdditionalName = '''', MF_MailAgent = ''''\<rparr>"

definition MFRecord_fields :: "(string \<times> MFRecord setter) list" where
  "MFRecord_fields =
     commonFields_fields @
       [(''additionalName'', plain store_string MF_AdditionalName MF_AdditionalName_update),
        (''mailAgent'', plain store_string MF_MailAgent MF_MailAgent_update)]"

definition MBRecord_zero :: MBRecord where
  "MBRecord_zero = \<lparr>Type = 0, DNSType = '''', Name = '''', TTL = 0, RRsetType = 0, RawText = '''', MB_AdditionalName = '''', MB_Mailbox = ''''\<rparr>"

definition MBRecord_fields :: "(string \<times> MBRecord setter) list" where
  "MBRecord_fields =
     commonFields_fields @
       [(''additionalName'', plain store_string MB_AdditionalName MB_AdditionalName_update),
        (''mailbox'', plain store_string MB_Mailbox MB_Mailbox_update)]"

definition SOARecord_zero :: SOARecord where
  "SOARecord_zero = \<lparr>Type = 0, DNSType = '''', Name = '''', TTL = 0, RRsetType = 0, RawText = '''', SOA_Admin = '''', SOA_Host = '''', SOA_Expire = 0, SOA_Minimum = 0, SOA_Refresh = 0, SOA_Retry = 0, SOA_Serial = 0\<rparr>"

definition SOARecord_fields :: "(string \<times> SOARecord setter) list" where
  "SOARecord_fields =
     commonFields_fields @
       [(''admin'', plain store_string SOA_Admin SOA_Admin_update),
        (''host'', plain store_string SOA_Host SOA_Host_update),
        (''expire'', plain store_int SOA_Expire SOA_Expire_update),
        (''minimum'', plain store_int SOA_Minimum SOA_Minimum_update),
        (''refresh'', plain store_int SOA_Refresh SOA_Refresh_update),
        (''retry'', plain store_int SOA_Retry SOA_Retry_update),
        (''serial'', plain store_int SOA_Serial SOA_Serial_update)]"

definition TXTRecord_zero :: TXTRecord where
  "TXTRecord_zero = \<lparr>Type = 0, DNSType = '''', Name = '''', TTL = 0, RRsetType = 0, RawText = '''', TXT_Strings = []\<rparr>"

definition TXTRecord_fields :: "(string \<times> TXTRecord setter) list" where
  "TXTRecord_fields =
     commonFields_fields @
       [(''strings'', plain (store_slice ''[]string'' store_string '''') TXT_Strings TXT_Strings_update)]"

definition CAARecord_zero :: CAARecord where
  "CAARecord_zero = \<lparr>Type = 0, DNSType = '''', Name = '''', TTL = 0, RRsetType = 0, RawText = '''', CAA_Flags = 0, CAA_Tag = '''', CAA_Value = ''''\<rparr>"

definition CAARecord_fields :: "(string \<times> CAARecord setter) list" where
  "CAARecord_fields =
     commonFields_fields @
       [(''flags'', plain store_int CAA_Flags CAA_Flags_update),
        (''tag'', plain store_string CAA_Tag CAA_Tag_update),
        (''value'', plain store_string CAA_Value CAA_Value_update)]"

definition CNAMERecord_zero :: CNAMERecord where
  "CNAMERecord_zero = \<lparr>Type = 0, DNSType = '''', Name = '''', TTL = 0, RRsetType = 0, RawText = '''', CNAME_Alias = '''', CNAME_Target = ''''\<rparr>"

definition CNAMERecord_fields :: "(string \<times> CNAMERecord setter) list" where
  "CNAMERecord_fields =
     commonFields_fields @
       [(''alias'', plain store_string CNAME_Alias CNAME_Alias_update),
        (''target'', plain store_string CNAME_Target CNAME_Target_update)]"

definition DNAMERecord_zero :: DNAMERecord where
  "DNAMERecord_zero = \<lparr>Type = 0, DNSType = '''', Name = '''', TTL = 0, RRsetType = 0, RawText = '''', DNAME_Alias = '''', DNAME_Target = ''''\<rparr>"

definition DNAMERecord_fields :: "(string \<times> DNAMERecord setter) list" where
  "DNAMERecord_fields =
     commonFields_fields @
       [(''alias'', plain store_string DNAME_Alias DNAME_Alias_update),
        (''target'', plain store_string DNAME_Target DNAME_Target_update)]"

definition DNSKEYRecord_zero :: DNSKEYRecord where
  "DNSKEYRecord_zero = \<lparr>Type = 0, DNSType = '''', Name = '''', TTL = 0, RRsetType = 0, RawText = '''', DNSKEY_Algorithm = 0, DNSKEY_Flags = 0, DNSKEY_Footprint = 0, DNSKEY_Key = [], DNSKEY_Protocol = 0, DNSKEY_PublicKey = ''''\<rparr>"

definition DNSKEYRecord_fields :: "(string \<times> DNSKEYRecord setter) list" where
  "DNSKEYRecord_fields =
     commonFields_fields @
       [(''algorithm'', plain store_int DNSKEY_Algorithm DNSKEY_Algorithm_update),
        (''flags'', plain store_int DNSKEY_Flags DNSKEY_Flags_update),
        (''footprint'', plain store_int DNSKEY_Footprint DNSKEY_Footprint_update),
        (''key'', plain (store_slice ''[]string'' store_string '''') DNSKEY_Key DNSKEY_Key_update),
        (''protocol'', plain store_int DNSKEY_Protocol DNSKEY_Protocol_update),
        (''publicKey'', plain store_string DNSKEY_PublicKey DNSKEY_PublicKey_update)]"

definition NSEC3PARAMRecord_zero :: NSEC3PARAMRecord where
  "NSEC3PARAMRecord_zero = \<lparr>Type = 0, DNSType = '''', Name = '''', TTL = 0, RRsetType = 0, RawText = '''', NSEC3PARAM_Flags = 0, NSEC3PARAM_HashAlgorithm = 0, NSEC3PARAM_Iterations = 0, NSEC3PARAM_Salt = []\<rparr>"

definition NSEC3PARAMRecord_fields :: "(string \<times> NSEC3PARAMRecord setter) list" where
  "NSEC3PARAMRecord_fields =
     commonFields_fields @
       [(''flags'', plain store_int NSEC3PARAM_Flags NSEC3PARAM_Flags_update),
        (''hashAlgorithm'', plain store_int NSEC3PARAM_HashAlgorithm NSEC3PARAM_HashAlgorithm_update),
        (''iterations'', plain store_int NSEC3PARAM_Iterations NSEC3PARAM_Iterations_update),
        (''salt'', plain (store_slice ''[]string'' store_string '''') NSEC3PARAM_Salt NSEC3PARAM_Salt_update)]"

definition NSECRecord_zero :: NSECRecord where
  "NSECRecord_zero = \<lparr>Type = 0, DNSType = '''', Name = '''', TTL = 0, RRsetType = 0, RawText = '''', NSEC_Next = '''', NSEC_Types = []\<rparr>"

definition NSECRecord_fields :: "(string \<times> NSECRecord setter) list" where
  "NSECRecord_fields =
     commonFields_fields @
       [(''next'', plain store_string NSEC_Next NSEC_Next_update),
        (''types'', plain (store_slice ''[]int'' store_int 0) NSEC_Types NSEC_Types_update)]"

definition DSRecord_zero :: DSRecord where
  "DSRecord_zero = \<lparr>Type = 0, DNSType = '''', Name = '''', TTL = 0, RRsetType = 0, RawText = '''', DS_Algorithm = 0, DS_Digest = [], DS_DigestID = 0, DS_Footprint = 0\<rparr>"

definition DSRecord_fields :: "(string \<times> DSRecord setter) list" where
  "DSRecord_fields =
     commonFields_fields @
       [(''algorithm'', plain store_int DS_Algorithm DS_Algorithm_update),
        (''digest'', plain (store_slice ''[]string'' store_string '''') DS_Digest DS_Digest_update),
        (''digestID'', plain store_int DS_DigestID DS_DigestID_update),
        (''footprint'', plain store_int DS_Footprint DS_Footprint_update)]"

definition PTRRecord_zero :: PTRRecord where
  "PTRRecord_zero = \<lparr>Type = 0, DNSType = '''', Name = '''', TTL = 0, RRsetType = 0, RawText = '''', PTR_Target = ''''\<rparr>"

definition PTRRecord_fields :: "(string \<times> PTRRecord setter) list" where
  "PTRRecord_fields =
     commonFields_fields @
       [(''target'', plain store_string PTR_Target PTR_Target_update)]"

definition SRVRecord_zero :: SRVRecord where
  "SRVRecord_zero = \<lparr>Type = 0, DNSType = '''', Name = '''', TTL = 0, RRsetType = 0, RawText = '''', SRV_Port = 0, SRV_Priority = 0, SRV_Target = '''', SRV_Weight = 0\<rparr>"

definition SRVRecord_fields :: "(string \<times> SRVRecord setter) list" where
  "SRVRecord_fields =
     commonFields_fields @
       [(''port'', plain store_int SRV_Port SRV_Port_update),
        (''priority'', plain store_int SRV_Priority SRV_Priority_update),
        (''target'', plain store_string SRV_Target SRV_Target_update),
        (''weight'', plain store_int SRV_Weight SRV_Weight_update)]"

definition LOCRecord_zero :: LOCRecord where
  "LOCRecord_zero = \<lparr>Type = 0, DNSType = '''', Name = '''', TTL = 0, RRsetType = 0, RawText = '''', LOC_Altitude = Float64 0 0, LOC_HPrecision = Float64 0 0, LOC_Latitude = Float64 0 0, LOC_Longitude = Float64 0 0, LOC_Size = Float64 0 0, LOC_VPrecision = Float64 0 0\<rparr>"

definition LOCRecord_fields :: "(string \<times> LOCRecord setter) list" where
  "LOCRecord_fields =
     commonFields_fields @
       [(''altitude'', plain store_float64 LOC_Altitude LOC_Altitude_update),
        (''hPrecision'', plain store_float64 LOC_HPrecision LOC_HPrecision_update),
        (''latitude'', plain store_float64 LOC_Latitude LOC_Latitude_update),
        (''longitude'', plain store_float64 LOC_Longitude LOC_Longitude_update),
        (''size'', plain store_float64 LOC_Size LOC_Size_update),
        (''vPrecision'', plain store_float64 LOC_VPrecision LOC_VPrecision_update)]"

definition NAPTRRecord_zero :: NAPTRRecord where
  "NAPTRRecord_zero = \<lparr>Type = 0, DNSType = '''', Name = '''', TTL = 0, RRsetType = 0, RawText = '''', NAPTR_Flags = '''', NAPTR_Order = 0, NAPTR_Preference = 0, NAPTR_Regexp = '''', NAPTR_Replacement = '''', NAPTR_Service = ''''\<rparr>"

definition NAPTRRecord_fields :: "(string \<times> NAPTRRecord setter) list" where
  "NAPTRRecord_fields =
     commonFields_fields @
       [(''flags'', plain store_string NAPTR_Flags NAPTR_Flags_update),
        (''order'', plain store_int NAPTR_Order NAPTR_Order_update),
        (''preference'', plain store_int NAPTR_Preference NAPTR_Preference_update),
        (''regexp'', plain store_string NAPTR_Regexp NAPTR_Regexp_update),
        (''replacement'', plain store_string NAPTR_Replacement NAPTR_Replacement_update),
        (''service'', plain store_string NAPTR_Service NAPTR_Service_update)]"

definition HINFORecord_zero :: HINFORecord where
  "HINFORecord_zero = \<lparr>Type = 0, DNSType = '''', Name = '''', TTL = 0, RRsetType = 0, RawText = '''', HINFO_CPU = '''', HINFO_OS = ''''\<rparr>"

definition HINFORecord_fields :: "(string \<times> HINFORecord setter) list" where
  "HINFORecord_fields =
     commonFields_fields @
       [(''cpu'', plain store_string HINFO_CPU HINFO_CPU_update),
        (''os'', plain store_string HINFO_OS HINFO_OS_update)]"

definition RPRecord_zero :: RPRecord where
  "RPRecord_zero = \<lparr>Type = 0, DNSType = '''', Name = '''', TTL = 0, RRsetType = 0, RawText = '''', RP_Mailbox = '''', RP_TextDomain = ''''\<rparr>"

definition RPRecord_fields :: "(string \<times> RPRecord setter) list" where
  "RPRecord_fields =
     commonFields_fields @
       [(''mailbox'', plain store_string RP_Mailbox RP_Mailbox_update),
        (''textDomain'', plain store_string RP_TextDomain RP_TextDomain_update)]"

definition DLVRecord_zero :: DLVRecord where
  "DLVRecord_zero = \<lparr>Type = 0, DNSType = '''', Name = '''', TTL = 0, RRsetType = 0, RawText = '''', DLV_Algorithm = 0, DLV_Digest = [], DLV_DigestID = 0, DLV_Footprint = 0\<rparr>"

definition DLVRecord_fields :: "(string \<times> DLVRecord setter) list" where
  "DLVRecord_fields =
     commonFields_fields @
       [(''algorithm'', plain store_int DLV_Algorithm DLV_Algorithm_update),
        (''digest'', plain (store_slice ''[]string'' store_string '''') DLV_Digest DLV_Digest_update),
        (''digestID'', plain store_int DLV_DigestID DLV_DigestID_update),
        (''footprint'', plain store_int DLV_Footprint DLV_Footprint_update)]"

definition SSHFPRecord_zero :: SSHFPRecord where
  "SSHFPRecord_zero = \<lparr>Type = 0, DNSType = '''', Name = '''', TTL = 0, RRsetType = 0, RawText = '''', SSHFP_Algorithm = 0, SSHFP_DigestType = 0, SSHFP_FingerPrint = []\<rparr>"

definition SSHFPRecord_fields :: "(string \<times> SSHFPRecord setter) list" where
  "SSHFPRecord_fields =
     commonFields_fields @
       [(''algorithm'', plain store_int SSHFP_Algorithm SSHFP_Algorithm_update),
        (''digestType'', plain store_int SSHFP_DigestType SSHFP_DigestType_update),
        (''fingerPrint'', plain (store_slice ''[]string'' store_string '''') SSHFP_FingerPrint SSHFP_FingerPrint_update)]"

definition DHCIDRecord_zero :: DHCIDRecord where
  "DHCIDRecord_zero = \<lparr>Type = 0, DNSType = '''', Name = '''', TTL = 0, RRsetType = 0, RawText = '''', DHCID_Data = []\<rparr>"

definition DHCIDRecord_fields :: "(string \<times> DHCIDRecord setter) list" where
  "DHCIDRecord_fields =
     commonFields_fields @
       [(''data'', plain (store_slice ''[]string'' store_string '''') DHCID_Data DHCID_Data_update)]"

definition TLSARecord_zero :: TLSARecord where
  "TLSARecord_zero = \<lparr>Type = 0, DNSType = '''', Name = '''', TTL = 0, RRsetType = 0, RawText = '''', TLSA_CertificateAssociationData = [], TLSA_CertificateUsage = 0, TLSA_MatchingType = 0, TLSA_Selector = 0\<rparr>"

definition TLSARecord_fields :: "(string \<times> TLSARecord setter) list" where
  "TLSARecord_fields =
     commonFields_fields @
       [(''certificateAssociationData'', plain (store_slice ''[]string'' store_string '''') TLSA_CertificateAssociationData TLSA_CertificateAssociationData_update),
        (''certificateUsage'', plain store_int TLSA_CertificateUsage TLSA_CertificateUsage_update),
        (''matchingType'', plain store_int TLSA_MatchingType TLSA_MatchingType_update),
        (''selector'', plain store_int TLSA_Selector TLSA_Selector_update)]"

definition NSAPRecord_zero :: NSAPRecord where
  "NSAPRecord_zero = \<lparr>Type = 0, DNSType = '''', Name = '''', TTL = 0, RRsetType = 0, RawText = '''', NSAP_Address = ''''\<rparr>"

definition NSAPRecord_fields :: "(string \<times> NSAPRecord setter) list" where
  "NSAPRecord_fields =
     commonFields_fields @
       [(''address'', plain store_string NSAP_Address NSAP_Address_update)]"

definition NULLRecord_zero :: NULLRecord where
  "NULLRecord_zero = \<lparr>Type = 0, DNSType = '''', Name = '''', TTL = 0, RRsetType = 0, RawText = '''', NULL_Data = []\<rparr>"

definition NULLRecord_fields :: "(string \<times> NULLRecord setter) list" where
  "NULLRecord_fields =
     commonFields_fields @
       [(''data'', plain (store_slice ''[]string'' store_string '''') NULL_Data NULL_Data_update)]"

text \<open>
  \<^verbatim>\<open>actualDNSType\<close> returns a pointer to a zero value of the shape for the tag, as an
  \<^verbatim>\<open>interface{}\<close>, or \<^verbatim>\<open>nil\<close>. The dynamic type of the interface value is the constructor.
\<close>

datatype actual =
    Ptr_ARecord ARecord
  | Ptr_AAAARecord AAAARecord
  | Ptr_NSRecord NSRecord
  | Ptr_MXRecord MXRecord
  | Ptr_MDRecord MDRecord
  | Ptr_MFRecord MFRecord
  | Ptr_MBRecord MBRecord
  | Ptr_SOARecord SOARecord
  | Ptr_TXTRecord TXTRecord
  | Ptr_CAARecord CAARecord
  | Ptr_CNAMERecord CNAMERecord
  | Ptr_DNAMERecord DNAMERecord
  | Ptr_DNSKEYRecord DNSKEYRecord
  | Ptr_NSEC3PARAMRecord NSEC3PARAMRecord
  | Ptr_NSECRecord NSECRecord
  | Ptr_DSRecord DSRecord
  | Ptr_PTRRecord PTRRecord
  | Ptr_SRVRecord SRVRecord
  | Ptr_LOCRecord LOCRecord
  | Ptr_NAPTRRecord NAPTRRecord
  | Ptr_HINFORecord HINFORecord
  | Ptr_RPRecord RPRecord
  | Ptr_DLVRecord DLVRecord
  | Ptr_SSHFPRecord SSHFPRecord
  | Ptr_DHCIDRecord DHCIDRecord
  | Ptr_TLSARecord TLSARecord
  | Ptr_NSAPRecord NSAPRecord
  | Ptr_NULLRecord NULLRecord

definition actualDNSType :: "string \<Rightarrow> actual option" where
  "actualDNSType dnsType =
     (if dnsType = ''A'' then Some (Ptr_ARecord ARecord_zero)
      else if dnsType = ''AAAA'' then Some (Ptr_AAAARecord AAAARecord_zero)
      else if dnsType = ''NS'' then Some (Ptr_NSRecord NSRecord_zero)
      else if dnsType = ''MX'' then Some (Ptr_MXRecord MXRecord_zero)
      else if dnsType = ''MD'' then Some (Ptr_MDRecord MDRecord_zero)
      else if dnsType = ''MF'' then Some (Ptr_MFRecord MFRecord_zero)
      else if dnsType = ''MB'' then Some (Ptr_MBRecord MBRecord_zero)
      else if dnsType = ''SOA'' then Some (Ptr_SOARecord SOARecord_zero)
      else if dnsType = ''TXT'' then Some (Ptr_TXTRecord TXTRecord_zero)
      else if dnsType = ''CAA'' then Some (Ptr_CAARecord CAARecord_zero)
      else if dnsType = ''CNAME'' then Some (Ptr_CNAMERecord CNAMERecord_zero)
      else if dnsType = ''DNAME'' then Some (Ptr_DNAMERecord DNAMERecord_zero)
      else if dnsType = ''DNSKEY'' then Some (Ptr_DNSKEYRecord DNSKEYRecord_zero)
      else if dnsType = ''NSEC3PARAM'' then Some (Ptr_NSEC3PARAMRecord NSEC3PARAMRecord_zero)
      else if dnsType = ''NSEC'' then Some (Ptr_NSECRecord NSECRecord_zero)
      else if dnsType = ''DS'' then Some (Ptr_DSRecord DSRecord_zero)
      else if dnsType = ''PTR'' then Some (Ptr_PTRRecord PTRRecord_zero)
      else if dnsType = ''SRV'' then Some (Ptr_SRVRecord SRVRecord_zero)
      else if dnsType = ''LOC'' then Some (Ptr_LOCRecord LOCRecord_zero)
      else if dnsType = ''NAPTR'' then Some (Ptr_NAPTRRecord NAPTRRecord_zero)
      else if dnsType = ''HINFO'' then Some (Ptr_HINFORecord HINFORecord_zero)
      else if dnsType = ''RP'' then Some (Ptr_RPRecord RPRecord_zero)
      else if dnsType = ''DLV'' then Some (Ptr_DLVRecord DLVRecord_zero)
      else if dnsType = ''SSHFP'' then Some (Ptr_SSHFPRecord SSHFPRecord_zero)
      else if dnsType = ''DHCID'' then Some (Ptr_DHCIDRecord DHCIDRecord_zero)
      else if dnsType = ''TLSA'' then Some (Ptr_TLSARecord TLSARecord_zero)
      else if dnsType = ''NSAP'' then Some (Ptr_NSAPRecord NSAPRecord_zero)
      else if dnsType = ''NULL'' then Some (Ptr_NULLRecord NULLRecord_zero)
      else None)"

definition Unmarshal_actual :: "json \<Rightarrow> actual \<Rightarrow> error + actual" where
  "Unmarshal_actual data actual =
     (case actual of
        Ptr_ARecord v \<Rightarrow>
          map_sum id Ptr_ARecord
            (json_Unmarshal (into_struct ''dnslookupapi.ARecord'' ARecord_fields) data v)
      | Ptr_AAAARecord v \<Rightarrow>
          map_sum id Ptr_AAAARecord
            (json_Unmarshal (into_struct ''dnslookupapi.AAAARecord'' AAAARecord_fields) data v)
      | Ptr_NSRecord v \<Rightarrow>
          map_sum id Ptr_NSRecord
            (json_Unmarshal (into_struct ''dnslookupapi.NSRecord'' NSRecord_fields) data v)
      | Ptr_MXRecord v \<Rightarrow>
          map_sum id Ptr_MXRecord
            (json_Unmarshal (into_struct ''dnslookupapi.MXRecord'' MXRecord_fields) data v)
      | Ptr_MDRecord v \<Rightarrow>
          map_sum id Ptr_MDRecord
            (json_Unmarshal (into_struct ''dnslookupapi.MDRecord'' MDRecord_fields) data v)
      | Ptr_MFRecord v \<Rightarrow>
          map_sum id Ptr_MFRecord
            (json_Unmarshal (into_struct ''dnslookupapi.MFRecord'' MFRecord_fields) data v)
      | Ptr_MBRecord v \<Rightarrow>
          map_sum id Ptr_MBRecord
            (json_Unmarshal (into_struct ''dnslookupapi.MBRecord'' MBRecord_fields) data v)
      | Ptr_SOARecord v \<Rightarrow>
          map_sum id Ptr_SOARecord
            (json_Unmarshal (into_struct ''dnslookupapi.SOARecord'' SOARecord_fields) data v)
      | Ptr_TXTRecord v \<Rightarrow>
          map_sum id Ptr_TXTRecord
            (json_Unmarshal (into_struct ''dnslookupapi.TXTRecord'' TXTRecord_fields) data v)
      | Ptr_CAARecord v \<Rightarrow>
          map_sum id Ptr_CAARecord
            (json_Unmarshal (into_struct ''dnslookupapi.CAARecord'' CAARecord_fields) data v)
      | Ptr_CNAMERecord v \<Rightarrow>
          map_sum id Ptr_CNAMERecord
            (json_Unmarshal (into_struct ''dnslookupapi.CNAMERecord'' CNAMERecord_fields) data v)
      | Ptr_DNAMERecord v \<Rightarrow>
          map_sum id Ptr_DNAMERecord
            (json_Unmarshal (into_struct ''dnslookupapi.DNAMERecord'' DNAMERecord_fields) data v)
      | Ptr_DNSKEYRecord v \<Rightarrow>
          map_sum id Ptr_DNSKEYRecord
            (json_Unmarshal (into_struct ''dnslookupapi.DNSKEYRecord'' DNSKEYRecord_fields) data v)
      | Ptr_NSEC3PARAMRecord v \<Rightarrow>
          map_sum id Ptr_NSEC3PARAMRecord
            (json_Unmarshal (into_struct ''dnslookupapi.NSEC3PARAMRecord'' NSEC3PARAMRecord_fields) data v)
      | Ptr_NSECRecord v \<Rightarrow>
          map_sum id Ptr_NSECRecord
            (json_Unmarshal (into_struct ''dnslookupapi.NSECRecord'' NSECRecord_fields) data v)
      | Ptr_DSRecord v \<Rightarrow>
          map_sum id Ptr_DSRecord
            (json_Unmarshal (into_struct ''dnslookupapi.DSRecord'' DSRecord_fields) data v)
      | Ptr_PTRRecord v \<Rightarrow>
          map_sum id Ptr_PTRRecord
            (json_Unmarshal (into_struct ''dnslookupapi.PTRRecord'' PTRRecord_fields) data v)
      | Ptr_SRVRecord v \<Rightarrow>
          map_sum id Ptr_SRVRecord
            (json_Unmarshal (into_struct ''dnslookupapi.SRVRecord'' SRVRecord_fields) data v)
      | Ptr_LOCRecord v \<Rightarrow>
          map_sum id Ptr_LOCRecord
            (json_Unmarshal (into_struct ''dnslookupapi.LOCRecord'' LOCRecord_fields) data v)
      | Ptr_NAPTRRecord v \<Rightarrow>
          map_sum id Ptr_NAPTRRecord
            (json_Unmarshal (into_struct ''dnslookupapi.NAPTRRecord'' NAPTRRecord_fields) data v)
      | Ptr_HINFORecord v \<Rightarrow>
          map_sum id Ptr_HINFORecord
            (json_Unmarshal (into_struct ''dnslookupapi.HINFORecord'' HINFORecord_fields) data v)
      | Ptr_RPRecord v \<Rightarrow>
          map_sum id Ptr_RPRecord
            (json_Unmarshal (into_struct ''dnslookupapi.RPRecord'' RPRecord_fields) data v)
      | Ptr_DLVRecord v \<Rightarrow>
          map_sum id Ptr_DLVRecord
            (json_Unmarshal (into_struct ''dnslookupapi.DLVRecord'' DLVRecord_fields) data v)
      | Ptr_SSHFPRecord v \<Rightarrow>
          map_sum id Ptr_SSHFPRecord
            (json_Unmarshal (into_struct ''dnslookupapi.SSHFPRecord'' SSHFPRecord_fields) data v)
      | Ptr_DHCIDRecord v \<Rightarrow>
          map_sum id Ptr_DHCIDRecord
            (json_Unmarshal (into_struct ''dnslookupapi.DHCIDRecord'' DHCIDRecord_fields) data v)
      | Ptr_TLSARecord v \<Rightarrow>
          map_sum id Ptr_TLSARecord
            (json_Unmarshal (into_struct ''dnslookupapi.TLSARecord'' TLSARecord_fields) data v)
      | Ptr_NSAPRecord v \<Rightarrow>
          map_sum id Ptr_NSAPRecord
            (json_Unmarshal (into_struct ''dnslookupapi.NSAPRecord'' NSAPRecord_fields) data v)
      | Ptr_NULLRecord v \<Rightarrow>
          map_sum id Ptr_NULLRecord
            (json_Unmarshal (into_struct ''dnslookupapi.NULLRecord'' NULLRecord_fields) data v)
     )"

record DNSRecord =
  CommonFields :: commonFields
  Raw :: json
  ParseError' :: "error option"

record DNSRecords =
  All' :: "DNSRecord list"
  A :: "ARecord list"
  AAAA :: "AAAARecord list"
  NS :: "NSRecord list"
  MX :: "MXRecord list"
  MD :: "MDRecord list"
  MF :: "MFRecord list"
  MB :: "MBRecord list"
  SOA :: "SOARecord list"
  TXT :: "TXTRecord list"
  CAA :: "CAARecord list"
  CNAME :: "CNAMERecord list"
  DNAME :: "DNAMERecord list"
  DNSKEY :: "DNSKEYRecord list"
  NSEC3PARAM :: "NSEC3PARAMRecord list"
  NSEC :: "NSECRecord list"
  DS :: "DSRecord list"
  PTR :: "PTRRecord list"
  SRV :: "SRVRecord list"
  LOC :: "LOCRecord list"
  NAPTR :: "NAPTRRecord list"
  HINFO :: "HINFORecord list"
  RP :: "RPRecord list"
  DLV :: "DLVRecord list"
  SSHFP :: "SSHFPRecord list"
  TLSA :: "TLSARecord list"
  DHCID :: "DHCIDRecord list"
  NSAP :: "NSAPRecord list"
  NULL :: "NULLRecord list"

definition DNSRecords_zero :: DNSRecords where
  "DNSRecords_zero =
     \<lparr>All' = [],
      A = [],
      AAAA = [],
      NS = [],
      MX = [],
      MD = [],
      MF = [],
      MB = [],
      SOA = [],
      TXT = [],
      CAA = [],
      CNAME = [],
      DNAME = [],
      DNSKEY = [],
      NSEC3PARAM = [],
      NSEC = [],
      DS = [],
      PTR = [],
      SRV = [],
      LOC = [],
      NAPTR = [],
      HINFO = [],
      RP = [],
      DLV = [],
      SSHFP = [],
      TLSA = [],
      DHCID = [],
      NSAP = [],
      NULL = []\<rparr>"

definition append_by_DNSType :: "string \<Rightarrow> actual \<Rightarrow> DNSRecords \<Rightarrow> error + DNSRecords" where
  "append_by_DNSType dnsType actual r =
     (if dnsType = ''A'' then
        (case actual of
           Ptr_ARecord v \<Rightarrow> Inr (r\<lparr>A := A r @ [v]\<rparr>)
         | _ \<Rightarrow> Inl (Panic ''interface conversion''))
      else if dnsType = ''AAAA'' then
        (case actual of
           Ptr_AAAARecord v \<Rightarrow> Inr (r\<lparr>AAAA := AAAA r @ [v]\<rparr>)
         | _ \<Rightarrow> Inl (Panic ''interface conversion''))
      else if dnsType = ''NS'' then
        (case actual of
           Ptr_NSRecord v \<Rightarrow> Inr (r\<lparr>NS := NS r @ [v]\<rparr>)
         | _ \<Rightarrow> Inl (Panic ''interface conversion''))
      else if dnsType = ''MX'' then
        (case actual of
           Ptr_MXRecord v \<Rightarrow> Inr (r\<lparr>MX := MX r @ [v]\<rparr>)
         | _ \<Rightarrow> Inl (Panic ''interface conversion''))
      else if dnsType = ''MD'' then
        (case actual of
           Ptr_MDRecord v \<Rightarrow> Inr (r\<lparr>MD := MD r @ [v]\<rparr>)
         | _ \<Rightarrow> Inl (Panic ''interface conversion''))
      else if dnsType = ''MF'' then
        (case actual of
           Ptr_MFRecord v \<Rightarrow> Inr (r\<lparr>MF := MF r @ [v]\<rparr>)
         | _ \<Rightarrow> Inl (Panic ''interface conversion''))
      else if dnsType = ''MB'' then
        (case actual of
           Ptr_MBRecord v \<Rightarrow> Inr (r\<lparr>MB := MB r @ [v]\<rparr>)
         | _ \<Rightarrow> Inl (Panic ''interface conversion''))
      else if dnsType = ''SOA'' then
        (case actual of
           Ptr_SOARecord v \<Rightarrow> Inr (r\<lparr>SOA := SOA r @ [v]\<rparr>)
         | _ \<Rightarrow> Inl (Panic ''interface conversion''))
      else if dnsType = ''TXT'' then
        (case actual of
           Ptr_TXTRecord v \<Rightarrow> Inr (r\<lparr>TXT := TXT r @ [v]\<rparr>)
         | _ \<Rightarrow> Inl (Panic ''interface conversion''))
      else if dnsType = ''CAA'' then
        (case actual of
           Ptr_CAARecord v \<Rightarrow> Inr (r\<lparr>CAA := CAA r @ [v]\<rparr>)
         | _ \<Rightarrow> Inl (Panic ''interface conversion''))
      else if dnsType = ''CNAME'' then
        (case actual of
           Ptr_CNAMERecord v \<Rightarrow> Inr (r\<lparr>CNAME := CNAME r @ [v]\<rparr>)
         | _ \<Rightarrow> Inl (Panic ''interface conversion''))
      else if dnsType = ''DNAME'' then
        (case actual of
           Ptr_DNAMERecord v \<Rightarrow> Inr (r\<lparr>DNAME := DNAME r @ [v]\<rparr>)
         | _ \<Rightarrow> Inl (Panic ''interface conversion''))
      else if dnsType = ''DNSKEY'' then
        (case actual of
           Ptr_DNSKEYRecord v \<Rightarrow> Inr (r\<lparr>DNSKEY := DNSKEY r @ [v]\<rparr>)
         | _ \<Rightarrow> Inl (Panic ''interface conversion''))
      else if dnsType = ''NSEC'' then
        (case actual of
           Ptr_NSECRecord v \<Rightarrow> Inr (r\<lparr>NSEC := NSEC r @ [v]\<rparr>)
         | _ \<Rightarrow> Inl (Panic ''interface conversion''))
      else if dnsType = ''NSEC3PARAM'' then
        (case actual of
           Ptr_NSEC3PARAMRecord v \<Rightarrow> Inr (r\<lparr>NSEC3PARAM := NSEC3PARAM r @ [v]\<rparr>)
         | _ \<Rightarrow> Inl (Panic ''interface conversion''))
      else if dnsType = ''DS'' then
        (case actual of
           Ptr_DSRecord v \<Rightarrow> Inr (r\<lparr>DS := DS r @ [v]\<rparr>)
         | _ \<Rightarrow> Inl (Panic ''interface conversion''))
      else if dnsType = ''PTR'' then
        (case actual of
           Ptr_PTRRecord v \<Rightarrow> Inr (r\<lparr>PTR := PTR r @ [v]\<rparr>)
         | _ \<Rightarrow> Inl (Panic ''interface conversion''))
      else if dnsType = ''SRV'' then
        (case actual of
           Ptr_SRVRecord v \<Rightarrow> Inr (r\<lparr>SRV := SRV r @ [v]\<rparr>)
         | _ \<Rightarrow> Inl (Panic ''interface conversion''))
      else if dnsType = ''LOC'' then
        (case actual of
           Ptr_LOCRecord v \<Rightarrow> Inr (r\<lparr>LOC := LOC r @ [v]\<rparr>)
         | _ \<Rightarrow> Inl (Panic ''interface conversion''))
      else if dnsType = ''NAPTR'' then
        (case actual of
           Ptr_NAPTRRecord v \<Rightarrow> Inr (r\<lparr>NAPTR := NAPTR r @ [v]\<rparr>)
         | _ \<Rightarrow> Inl (Panic ''interface conversion''))
      else if dnsType = ''HINFO'' then
        (case actual of
           Ptr_HINFORecord v \<Rightarrow> Inr (r\<lparr>HINFO := HINFO r @ [v]\<rparr>)
         | _ \<Rightarrow> Inl (Panic ''interface conversion''))
      else if dnsType = ''RP'' then
        (case actual of
           Ptr_RPRecord v \<Rightarrow> Inr (r\<lparr>RP := RP r @ [v]\<rparr>)
         | _ \<Rightarrow> Inl (Panic ''interface conversion''))
      else if dnsType = ''DLV'' then
        (case actual of
           Ptr_DLVRecord v \<Rightarrow> Inr (r\<lparr>DLV := DLV r @ [v]\<rparr>)
         | _ \<Rightarrow> Inl (Panic ''interface conversion''))
      else if dnsType = ''SSHFP'' then
        (case actual of
           Ptr_SSHFPRecord v \<Rightarrow> Inr (r\<lparr>SSHFP := SSHFP r @ [v]\<rparr>)
         | _ \<Rightarrow> Inl (Panic ''interface conversion''))
      else if dnsType = ''DHCID'' then
        (case actual of
           Ptr_DHCIDRecord v \<Rightarrow> Inr (r\<lparr>DHCID := DHCID r @ [v]\<rparr>)
         | _ \<Rightarrow> Inl (Panic ''interface conversion''))
      else if dnsType = ''TLSA'' then
        (case actual of
           Ptr_TLSARecord v \<Rightarrow> Inr (r\<lparr>TLSA := TLSA r @ [v]\<rparr>)
         | _ \<Rightarrow> Inl (Panic ''interface conversion''))
      else if dnsType = ''NSAP'' then
        (case actual of
           Ptr_NSAPRecord v \<Rightarrow> Inr (r\<lparr>NSAP := NSAP r @ [v]\<rparr>)
         | _ \<Rightarrow> Inl (Panic ''interface conversion''))
      else if dnsType = ''NULL'' then
        (case actual of
           Ptr_NULLRecord v \<Rightarrow> Inr (r\<lparr>NULL := NULL r @ [v]\<rparr>)
         | _ \<Rightarrow> Inl (Panic ''interface conversion''))
      else Inr r)"

section \<open>The record decoder (models.go)\<close>

text \<open>
  \<^verbatim>\<open>parseRecord\<close> appends to the typed slices of its receiver and returns the flat entry;
  the model returns the receiver as it is after the call, and the entry. The type
  assertions of the final \<^verbatim>\<open>switch\<close> are in \<open>append_by_DNSType\<close>; a failed assertion is
  the only way to \<open>Inl\<close>.
\<close>

definition parseRecord :: "DNSRecords \<Rightarrow> json \<Rightarrow> error + (DNSRecords \<times> DNSRecord)" where
  "parseRecord r record =
     (case json_Unmarshal (into_struct ''struct { dnslookupapi.commonFields }'' commonFields_fields)
             record commonFields_zero of
        Inl err \<Rightarrow>
          Inr (r, \<lparr>CommonFields = commonFields_zero, Raw = record, ParseError' = Some err\<rparr>)
      | Inr obj \<Rightarrow>
          (let dnsRecord = \<lparr>CommonFields = obj, Raw = record, ParseError' = None\<rparr> in
           case actualDNSType (DNSType obj) of
             None \<Rightarrow> Inr (r, dnsRecord\<lparr>ParseError' := Some ErrUnsupportedDNSType\<rparr>)
           | Some actual \<Rightarrow>
               (case Unmarshal_actual record actual of
                  Inl err \<Rightarrow> Inr (r, dnsRecord\<lparr>ParseError' := Some err\<rparr>)
                | Inr actual' \<Rightarrow>
                    (case append_by_DNSType (DNSType obj) actual' r of
                       Inl p \<Rightarrow> Inl p
                     | Inr r' \<Rightarrow> Inr (r', dnsRecord)))))"

text \<open>The loop of \<^verbatim>\<open>UnmarshalJSON\<close>: \<^verbatim>\<open>r.All = append(r.All, r.parseRecord(record))\<close>.\<close>

fun parseRecords :: "DNSRecords \<Rightarrow> json list \<Rightarrow> error + DNSRecords" where
  "parseRecords r [] = Inr r"
| "parseRecords r (record # raw) =
     (case parseRecord r record of
        Inl p \<Rightarrow> Inl p
      | Inr (r', d) \<Rightarrow> parseRecords (r'\<lparr>All' := All' r' @ [d]\<rparr>) raw)"

text \<open>
  \<^verbatim>\<open>json.Unmarshal(data, &raw)\<close> with \<^verbatim>\<open>raw []json.RawMessage\<close>: an element of any kind,
  \<open>null\<close> included, is stored as it stands.
\<close>

definition store_RawMessage :: "json \<Rightarrow> json \<Rightarrow> error option \<times> json" where
  "store_RawMessage j old = (None, j)"

definition DNSRecords_UnmarshalJSON :: "DNSRecords \<Rightarrow> json \<Rightarrow> error + DNSRecords" where
  "DNSRecords_UnmarshalJSON r data =
     (case json_Unmarshal
             (\<lambda>j s. Inr (store_slice ''[]json.RawMessage'' store_RawMessage JNull j s)) data [] of
        Inl err \<Rightarrow> Inl err
      | Inr raw \<Rightarrow> parseRecords r raw)"

text \<open>
  \<^verbatim>\<open>json.Marshal(r.All)\<close>. A \<^verbatim>\<open>DNSRecord\<close> is encoded field by field: the common fields
  under the Go name of the field, the raw message as it is, and the error value, \<open>null\<close>
  for \<^verbatim>\<open>nil\<close>. An error that is present is encoded by its exported fields: the sentinel has
  none; of an \<^verbatim>\<open>UnmarshalTypeError\<close> the model keeps \<^verbatim>\<open>Value\<close> and \<^verbatim>\<open>Type\<close> (it has no
  byte offsets to give). With trees for raw messages the encoder cannot fail.
\<close>

definition Marshal_commonFields :: "commonFields \<Rightarrow> json" where
  "Marshal_commonFields c =
     JObject
       [(''type'', JInt (Type c)),
        (''dnsType'', JString (DNSType c)),
        (''name'', JString (Name c)),
        (''ttl'', JInt (TTL c)),
        (''rRsetType'', JInt (RRsetType c)),
        (''rawText'', JString (RawText c))]"

fun Marshal_error :: "error option \<Rightarrow> json" where
  "Marshal_error None = JNull"
| "Marshal_error (Some (UnmarshalTypeError v t)) =
     JObject [(''Value'', JString v), (''Type'', JObject [])]"
| "Marshal_error (Some _) = JObject []"

definition Marshal_DNSRecord :: "DNSRecord \<Rightarrow> json" where
  "Marshal_DNSRecord d =
     JObject
       [(''CommonFields'', Marshal_commonFields (CommonFields d)),
        (''raw'', Raw d),
        (''parseError'', Marshal_error (ParseError' d))]"

text \<open>
  The slices of a collection are modelled by the lists of their elements, which is all
  that \<^verbatim>\<open>append\<close>, \<^verbatim>\<open>len\<close> and \<^verbatim>\<open>range\<close> see. \<^verbatim>\<open>json.Marshal\<close> sees more: it encodes
  the \<^verbatim>\<open>nil\<close> slice as \<open>null\<close>, and a slice that is not \<^verbatim>\<open>nil\<close> as an array, also when
  it is empty. \<open>slice\<close> is the slice value that \<^verbatim>\<open>json.Marshal\<close> is given, and \<open>as_slice\<close>
  the slice that the list of \<^verbatim>\<open>All\<close> stands for: a list with an element is a slice that
  is not \<^verbatim>\<open>nil\<close>, and the empty list is the \<^verbatim>\<open>nil\<close> slice. That is what \<^verbatim>\<open>All\<close> is in
  the zero collection, and what it stays until \<^verbatim>\<open>UnmarshalJSON\<close> appends the first
  entry, so also after decoding \<^verbatim>\<open>[]\<close>: the client changes \<^verbatim>\<open>All\<close> by \<^verbatim>\<open>append\<close> only.
  (An \<^verbatim>\<open>All\<close> that is empty and not \<^verbatim>\<open>nil\<close> can only be built by a caller;
  \<^verbatim>\<open>MarshalJSON\<close> does not hand it to \<^verbatim>\<open>json.Marshal\<close> either.)
\<close>

datatype 'a slice = nil | Slice "'a list"

definition as_slice :: "'a list \<Rightarrow> 'a slice" where
  "as_slice xs = (if xs = [] then nil else Slice xs)"

fun json_Marshal_All :: "DNSRecord slice \<Rightarrow> error + json" where
  "json_Marshal_All nil = Inr JNull"
| "json_Marshal_All (Slice ds) = Inr (JArray (map Marshal_DNSRecord ds))"

definition DNSRecords_MarshalJSON :: "DNSRecords \<Rightarrow> error + json" where
  "DNSRecords_MarshalJSON r =
     (if length (All' r) = 0 then Inr (JArray [])
      else (case json_Marshal_All (as_slice (All' r)) of
              Inl err \<Rightarrow> Inl err
            | Inr result \<Rightarrow> Inr result))"
subsection \<open>What the decoder is meant to compute\<close>

text \<open>
  The definitions of this subsection are not code of the client; they say, element by
  element, what a decoded collection should hold, and the theorems compare the decoder
  with them.

  \<open>envelope\<close> is the decoding of the common fields alone. \<open>full_decode\<close> is the value of
  the concrete shape, for an element whose envelope decodes, whose tag is in the table of
  \<^verbatim>\<open>actualDNSType\<close> and whose decoding into the shape for the tag succeeds;
  \<open>full_decode_as tag\<close> is that value for an element whose tag is \<open>tag\<close>. \<open>entry\<close> is the
  flat entry of an element. \<open>typed tag r\<close> is the typed list of \<open>r\<close> for a tag, its
  elements in the sum type \<open>actual\<close>; \<open>typed_total\<close> adds up the lengths of all typed lists.
  \<open>tag_of\<close> is the tag of a shape, \<open>push v r\<close> appends a value to the typed list of its
  shape, and \<open>collect r record\<close> is what one element adds to the typed lists.
\<close>

definition envelope :: "json \<Rightarrow> error + commonFields" where
  "envelope record =
     json_Unmarshal (into_struct ''struct { dnslookupapi.commonFields }'' commonFields_fields)
       record commonFields_zero"

definition full_decode :: "json \<Rightarrow> actual option" where
  "full_decode record =
     (case envelope record of
        Inl _ \<Rightarrow> None
      | Inr obj \<Rightarrow>
          (case actualDNSType (DNSType obj) of
             None \<Rightarrow> None
           | Some a \<Rightarrow> (case Unmarshal_actual record a of Inl _ \<Rightarrow> None | Inr v \<Rightarrow> Some v)))"

definition full_decode_as :: "string \<Rightarrow> json \<Rightarrow> actual option" where
  "full_decode_as tag record =
     (case envelope record of
        Inl _ \<Rightarrow> None
      | Inr obj \<Rightarrow>
          (if DNSType obj = tag then
             (case actualDNSType tag of
                None \<Rightarrow> None
              | Some a \<Rightarrow> (case Unmarshal_actual record a of Inl _ \<Rightarrow> None | Inr v \<Rightarrow> Some v))
           else None))"

definition entry :: "json \<Rightarrow> DNSRecord" where
  "entry record =
     (case envelope record of
        Inl err \<Rightarrow> \<lparr>CommonFields = commonFields_zero, Raw = record, ParseError' = Some err\<rparr>
      | Inr obj \<Rightarrow>
          \<lparr>CommonFields = obj, Raw = record,
           ParseError' =
             (case actualDNSType (DNSType obj) of
                None \<Rightarrow> Some ErrUnsupportedDNSType
              | Some a \<Rightarrow>
                  (case Unmarshal_actual record a of Inl err \<Rightarrow> Some err | Inr _ \<Rightarrow> None))\<rparr>)"

fun tag_of :: "actual \<Rightarrow> string" where
  "tag_of (Ptr_ARecord _) = ''A''"
| "tag_of (Ptr_AAAARecord _) = ''AAAA''"
| "tag_of (Ptr_NSRecord _) = ''NS''"
| "tag_of (Ptr_MXRecord _) = ''MX''"
| "tag_of (Ptr_MDRecord _) = ''MD''"
| "tag_of (Ptr_MFRecord _) = ''MF''"
| "tag_of (Ptr_MBRecord _) = ''MB''"
| "tag_of (Ptr_SOARecord _) = ''SOA''"
| "tag_of (Ptr_TXTRecord _) = ''TXT''"
| "tag_of (Ptr_CAARecord _) = ''CAA''"
| "tag_of (Ptr_CNAMERecord _) = ''CNAME''"
| "tag_of (Ptr_DNAMERecord _) = ''DNAME''"
| "tag_of (Ptr_DNSKEYRecord _) = ''DNSKEY''"
| "tag_of (Ptr_NSEC3PARAMRecord _) = ''NSEC3PARAM''"
| "tag_of (Ptr_NSECRecord _) = ''NSEC''"
| "tag_of (Ptr_DSRecord _) = ''DS''"
| "tag_of (Ptr_PTRRecord _) = ''PTR''"
| "tag_of (Ptr_SRVRecord _) = ''SRV''"
| "tag_of (Ptr_LOCRecord _) = ''LOC''"
| "tag_of (Ptr_NAPTRRecord _) = ''NAPTR''"
| "tag_of (Ptr_HINFORecord _) = ''HINFO''"
| "tag_of (Ptr_RPRecord _) = ''RP''"
| "tag_of (Ptr_DLVRecord _) = ''DLV''"
| "tag_of (Ptr_SSHFPRecord _) = ''SSHFP''"
| "tag_of (Ptr_DHCIDRecord _) = ''DHCID''"
| "tag_of (Ptr_TLSARecord _) = ''TLSA''"
| "tag_of (Ptr_NSAPRecord _) = ''NSAP''"
| "tag_of (Ptr_NULLRecord _) = ''NULL''"

fun push :: "actual \<Rightarrow> DNSRecords \<Rightarrow> DNSRecords" where
  "push (Ptr_ARecord v) r = r\<lparr>A := A r @ [v]\<rparr>"
| "push (Ptr_AAAARecord v) r = r\<lparr>AAAA := AAAA r @ [v]\<rparr>"
| "push (Ptr_NSRecord v) r = r\<lparr>NS := NS r @ [v]\<rparr>"
| "push (Ptr_MXRecord v) r = r\<lparr>MX := MX r @ [v]\<rparr>"
| "push (Ptr_MDRecord v) r = r\<lparr>MD := MD r @ [v]\<rparr>"
| "push (Ptr_MFRecord v) r = r\<lparr>MF := MF r @ [v]\<rparr>"
| "push (Ptr_MBRecord v) r = r\<lparr>MB := MB r @ [v]\<rparr>"
| "push (Ptr_SOARecord v) r = r\<lparr>SOA := SOA r @ [v]\<rparr>"
| "push (Ptr_TXTRecord v) r = r\<lparr>TXT := TXT r @ [v]\<rparr>"
| "push (Ptr_CAARecord v) r = r\<lparr>CAA := CAA r @ [v]\<rparr>"
| "push (Ptr_CNAMERecord v) r = r\<lparr>CNAME := CNAME r @ [v]\<rparr>"
| "push (Ptr_DNAMERecord v) r = r\<lparr>DNAME := DNAME r @ [v]\<rparr>"
| "push (Ptr_DNSKEYRecord v) r = r\<lparr>DNSKEY := DNSKEY r @ [v]\<rparr>"
| "push (Ptr_NSEC3PARAMRecord v) r = r\<lparr>NSEC3PARAM := NSEC3PARAM r @ [v]\<rparr>"
| "push (Ptr_NSECRecord v) r = r\<lparr>NSEC := NSEC r @ [v]\<rparr>"
| "push (Ptr_DSRecord v) r = r\<lparr>DS := DS r @ [v]\<rparr>"
| "push (Ptr_PTRRecord v) r = r\<lparr>PTR := PTR r @ [v]\<rparr>"
| "push (Ptr_SRVRecord v) r = r\<lparr>SRV := SRV r @ [v]\<rparr>"
| "push (Ptr_LOCRecord v) r = r\<lparr>LOC := LOC r @ [v]\<rparr>"
| "push (Ptr_NAPTRRecord v) r = r\<lparr>NAPTR := NAPTR r @ [v]\<rparr>"
| "push (Ptr_HINFORecord v) r = r\<lparr>HINFO := HINFO r @ [v]\<rparr>"
| "push (Ptr_RPRecord v) r = r\<lparr>RP := RP r @ [v]\<rparr>"
| "push (Ptr_DLVRecord v) r = r\<lparr>DLV := DLV r @ [v]\<rparr>"
| "push (Ptr_SSHFPRecord v) r = r\<lparr>SSHFP := SSHFP r @ [v]\<rparr>"
| "push (Ptr_DHCIDRecord v) r = r\<lparr>DHCID := DHCID r @ [v]\<rparr>"
| "push (Ptr_TLSARecord v) r = r\<lparr>TLSA := TLSA r @ [v]\<rparr>"
| "push (Ptr_NSAPRecord v) r = r\<lparr>NSAP := NSAP r @ [v]\<rparr>"
| "push (Ptr_NULLRecord v) r = r\<lparr>NULL := NULL r @ [v]\<rparr>"

definition typed :: "string \<Rightarrow> DNSRecords \<Rightarrow> actual list" where
  "typed tag r =
     (if tag = ''A'' then map Ptr_ARecord (A r)
      else if tag = ''AAAA'' then map Ptr_AAAARecord (AAAA r)
      else if tag = ''NS'' then map Ptr_NSRecord (NS r)
      else if tag = ''MX'' then map Ptr_MXRecord (MX r)
      else if tag = ''MD'' then map Ptr_MDRecord (MD r)
      else if tag = ''MF'' then map Ptr_MFRecord (MF r)
      else if tag = ''MB'' then map Ptr_MBRecord (MB r)
      else if tag = ''SOA'' then map Ptr_SOARecord (SOA r)
      else if tag = ''TXT'' then map Ptr_TXTRecord (TXT r)
      else if tag = ''CAA'' then map Ptr_CAARecord (CAA r)
      else if tag = ''CNAME'' then map Ptr_CNAMERecord (CNAME r)
      else if tag = ''DNAME'' then map Ptr_DNAMERecord (DNAME r)
      else if tag = ''DNSKEY'' then map Ptr_DNSKEYRecord (DNSKEY r)
      else if tag = ''NSEC3PARAM'' then map Ptr_NSEC3PARAMRecord (NSEC3PARAM r)
      else if tag = ''NSEC'' then map Ptr_NSECRecord (NSEC r)
      else if tag = ''DS'' then map Ptr_DSRecord (DS r)
      else if tag = ''PTR'' then map Ptr_PTRRecord (PTR r)
      else if tag = ''SRV'' then map Ptr_SRVRecord (SRV r)
      else if tag = ''LOC'' then map Ptr_LOCRecord (LOC r)
      else if tag = ''NAPTR'' then map Ptr_NAPTRRecord (NAPTR r)
      else if tag = ''HINFO'' then map Ptr_HINFORecord (HINFO r)
      else if tag = ''RP'' then map Ptr_RPRecord (RP r)
      else if tag = ''DLV'' then map Ptr_DLVRecord (DLV r)
      else if tag = ''SSHFP'' then map Ptr_SSHFPRecord (SSHFP r)
      else if tag = ''TLSA'' then map Ptr_TLSARecord (TLSA r)
      else if tag = ''DHCID'' then map Ptr_DHCIDRecord (DHCID r)
      else if tag = ''NSAP'' then map Ptr_NSAPRecord (NSAP r)
      else if tag = ''NULL'' then map Ptr_NULLRecord (NULL r)
      else [])"

definition typed_total :: "DNSRecords \<Rightarrow> nat" where
  "typed_total r =
     length (A r) + length (AAAA r) + length (NS r) + length (MX r) +
     length (MD r) + length (MF r) + length (MB r) + length (SOA r) +
     length (TXT r) + length (CAA r) + length (CNAME r) + length (DNAME r) +
     length (DNSKEY r) + length (NSEC3PARAM r) + length (NSEC r) + length (DS r) +
     length (PTR r) + length (SRV r) + length (LOC r) + length (NAPTR r) +
     length (HINFO r) + length (RP r) + length (DLV r) + length (SSHFP r) +
     length (TLSA r) + length (DHCID r) + length (NSAP r) + length (NULL r)"

definition collect :: "DNSRecords \<Rightarrow> json \<Rightarrow> DNSRecords" where
  "collect r record = (case full_decode record of None \<Rightarrow> r | Some v \<Rightarrow> push v r)"

subsection \<open>Sample inputs\<close>

text \<open>
  An \<^verbatim>\<open>A\<close> record as the service sends it, what it decodes to, the JSON that
  \<^verbatim>\<open>MarshalJSON\<close> makes of that, and what decoding that JSON gives; and a record with a
  tag outside the table.
\<close>

definition a_record_example :: json where
  "a_record_example =
     JObject
       [(''type'', JInt 1), (''dnsType'', JString ''A''), (''name'', JString ''whoisxmlapi.com.''),
        (''ttl'', JInt 300), (''rRsetType'', JInt 1), (''address'', JString ''172.67.71.123'')]"

definition a_record_envelope :: commonFields where
  "a_record_envelope =
     \<lparr>Type = 1, DNSType = ''A'', Name = ''whoisxmlapi.com.'', TTL = 300, RRsetType = 1, RawText = ''''\<rparr>"

definition a_record_decoded :: DNSRecords where
  "a_record_decoded =
     DNSRecords_zero
       \<lparr>All' := [\<lparr>CommonFields = a_record_envelope, Raw = a_record_example, ParseError' = None\<rparr>],
        A := [\<lparr>Type = 1, DNSType = ''A'', Name = ''whoisxmlapi.com.'', TTL = 300, RRsetType = 1,
               RawText = '''', A_Address = ''172.67.71.123''\<rparr>]\<rparr>"

definition a_record_encoded :: json where
  "a_record_encoded =
     JObject
       [(''CommonFields'',
         JObject
           [(''type'', JInt 1), (''dnsType'', JString ''A''), (''name'', JString ''whoisxmlapi.com.''),
            (''ttl'', JInt 300), (''rRsetType'', JInt 1), (''rawText'', JString '''')]),
        (''raw'', a_record_example),
        (''parseError'', JNull)]"

definition a_record_redecoded :: DNSRecords where
  "a_record_redecoded =
     DNSRecords_zero
       \<lparr>All' := [\<lparr>CommonFields = commonFields_zero, Raw = a_record_encoded,
                   ParseError' = Some ErrUnsupportedDNSType\<rparr>]\<rparr>"

definition unknown_tag_example :: json where
  "unknown_tag_example =
     JObject [(''dnsType'', JString ''SPF''), (''name'', JString ''example.com.''), (''ttl'', JInt 60)]"

definition unknown_tag_envelope :: commonFields where
  "unknown_tag_envelope =
     \<lparr>Type = 0, DNSType = ''SPF'', Name = ''example.com.'', TTL = 60, RRsetType = 0, RawText = ''''\<rparr>"

section \<open>The timestamp codec (models.go)\<close>

text \<open>\<^verbatim>\<open>unmarshalString\<close>: the JSON value as a string, \<^verbatim>\<open>""\<close> with the error otherwise.\<close>

definition unmarshalString :: "json \<Rightarrow> error + string" where
  "unmarshalString raw =
     (case json_Unmarshal (\<lambda>j s. Inr (store_string j s)) raw '''' of
        Inl err \<Rightarrow> Inl err
      | Inr val \<Rightarrow> Inr val)"

text \<open>\<^verbatim>\<open>var emptyTime Time\<close>: the zero value.\<close>

definition emptyTime :: Time where
  "emptyTime = \<lparr>wall = 0, ext = 0, loc = None\<rparr>"

text \<open>
  \<^verbatim>\<open>(t *Time) UnmarshalJSON(b)\<close> returns the new value of \<^verbatim>\<open>*t\<close>, or the error (and
  \<^verbatim>\<open>*t\<close> is left alone).
\<close>

definition Time_UnmarshalJSON :: "json \<Rightarrow> error + Time" where
  "Time_UnmarshalJSON b =
     (case unmarshalString b of
        Inl err \<Rightarrow> Inl err
      | Inr str \<Rightarrow>
          (if str = '''' then Inr emptyTime
           else (case Parse_layout str of
                   Inl err \<Rightarrow> Inl err
                 | Inr v \<Rightarrow> Inr v)))"


section \<open>The client (options.go, client.go, dnslookup.go)\<close>

subsection \<open>Query options\<close>

text \<open>An option changes the query parameters in place; here it returns the changed ones.\<close>

type_synonym Option = "Values \<Rightarrow> Values"

definition OptionOutputFormat :: "string \<Rightarrow> Option" where
  "OptionOutputFormat outputFormat v = Values_Set ''outputFormat'' (ToUpper outputFormat) v"

definition OptionType :: "string \<Rightarrow> Option" where
  "OptionType t v = Values_Set ''type'' (ToUpper t) v"

definition OptionCallback :: "string \<Rightarrow> Option" where
  "OptionCallback c v = Values_Set ''callback'' c v"

subsection \<open>Requests and responses\<close>

text \<open>
  The field \<^verbatim>\<open>client *http.Client\<close> of \<^verbatim>\<open>Client\<close> is the function \<open>httpClient\<close> from a
  request to what happens to it.
\<close>

record Client =
  httpClient :: "http_Request \<Rightarrow> exchange"
  userAgent :: string
  apiKey :: string

definition mediaType :: string where
  "mediaType = ''application/json''"

definition Client_NewRequest :: "Client \<Rightarrow> string \<Rightarrow> URL \<Rightarrow> error + http_Request" where
  "Client_NewRequest c method u =
     (case http_NewRequest method u of
        Inl err \<Rightarrow> Inl err
      | Inr req \<Rightarrow>
          Inr (req\<lparr>Header := Header req @
                 [(''Content-Type'', mediaType), (''Accept'', mediaType),
                  (''User-Agent'', userAgent c)]\<rparr>))"

text \<open>
  \<^verbatim>\<open>Client.Do\<close> returns the response (or \<^verbatim>\<open>nil\<close>) and the error; the model returns with
  them the bytes written to \<^verbatim>\<open>v\<close>. An error of \<^verbatim>\<open>Close\<close> is reported only when there is
  no other.
\<close>

definition Client_Do :: "Client \<Rightarrow> http_Request \<Rightarrow> http_Response option \<times> string \<times> error option" where
  "Client_Do c req =
     (case httpClient c req of
        NoResponse err \<Rightarrow> (None, [], Some (Errorf ''cannot execute request'' err))
      | Responded resp copied read_err close_err \<Rightarrow>
          (case read_err of
             Some err \<Rightarrow> (Some resp, copied, Some (Errorf ''cannot read response'' err))
           | None \<Rightarrow>
               (case close_err of
                  Some rerr \<Rightarrow> (Some resp, copied, Some (Errorf ''cannot close response'' rerr))
                | None \<Rightarrow> (Some resp, copied, None))))"

definition checkResponse :: "http_Response \<Rightarrow> error option" where
  "checkResponse r =
     (if 200 \<le> StatusCode r \<and> StatusCode r \<le> 299 then None
      else Some (ErrorResponse_error \<lparr>Response = r, Message' = ''''\<rparr>))"

text \<open>
  The \<^verbatim>\<open>Error\<close> methods of \<^verbatim>\<open>ErrorResponse\<close> (client.go) and \<^verbatim>\<open>ErrorMessage\<close>
  (models.go), and with them the text of the other errors: of a \<^verbatim>\<open>time.ParseError\<close>, of
  the sentinel, and of an error wrapped by \<^verbatim>\<open>fmt.Errorf\<close>. The texts of the errors of
  \<^verbatim>\<open>encoding/json\<close> are not modelled.
\<close>

definition ErrorResponse_Error :: "ErrorResponse \<Rightarrow> string" where
  "ErrorResponse_Error e =
     (if Message' e \<noteq> '''' then
        ''API failed with status code: '' @ Itoa (StatusCode (Response e)) @
        '' ('' @ Message' e @ '')''
      else ''API failed with status code: '' @ Itoa (StatusCode (Response e)))"

definition ErrorMessage_Error :: "ErrorMessage \<Rightarrow> string" where
  "ErrorMessage_Error e = ''API error: ['' @ Code e @ ''] '' @ Message e"

fun Error_text :: "error \<Rightarrow> string" where
  "Error_text (ParseError lay val layElem valElem msg) =
     ParseError_Error lay val layElem valElem msg"
| "Error_text (ErrorMessage_error e) = ErrorMessage_Error e"
| "Error_text (ErrorResponse_error e) = ErrorResponse_Error e"
| "Error_text (Errorf context_text err) = context_text @ '': '' @ Error_text err"
| "Error_text (Failure s) = s"
| "Error_text ErrUnsupportedDNSType = ''unknown DNS type''"
| "Error_text _ = ''''"

text \<open>\<^verbatim>\<open>Response\<close>: the embedded \<^verbatim>\<open>*http.Response\<close> and the body as bytes.\<close>

record Response =
  HTTPResponse :: "http_Response option"
  Body :: string

record dnsLookupServiceOp =
  client :: Client
  baseURL :: URL

definition newRequest :: "dnsLookupServiceOp \<Rightarrow> error + http_Request" where
  "newRequest service =
     (case Client_NewRequest (client service) ''GET'' (baseURL service) of
        Inl err \<Rightarrow> Inl err
      | Inr req \<Rightarrow>
          (let query = Values_Set ''apiKey'' (apiKey (client service)) Map.empty
           in Inr (req\<lparr>URL := (URL req)\<lparr>RawQuery := Values_Encode query\<rparr>\<rparr>)))"

subsection \<open>The response of the service (models.go, dnslookup.go)\<close>

record Audit =
  CreatedDate :: Time
  UpdatedDate :: Time

record DNSLookupResponse =
  DomainName :: string
  Types :: "int list"
  DNSTypes :: string
  Audit :: Audit
  DNSRecords :: DNSRecords

record apiResponse =
  DNSLookupResponse :: DNSLookupResponse
  ErrorMessage :: ErrorMessage

definition apiResponse_zero :: apiResponse where
  "apiResponse_zero =
     \<lparr>DNSLookupResponse =
        \<lparr>DomainName = '''', Types = [], DNSTypes = '''',
         Audit = \<lparr>CreatedDate = emptyTime, UpdatedDate = emptyTime\<rparr>,
         DNSRecords = DNSRecords_zero\<rparr>,
      ErrorMessage = \<lparr>Code = '''', Message = ''''\<rparr>\<rparr>"

text \<open>
  The steps of the decoder for fields that are structs, and for fields whose type has an
  \<^verbatim>\<open>UnmarshalJSON\<close> method: the method is called for every JSON value, \<open>null\<close> included,
  and its error stops the decoder.
\<close>

definition nested :: "'v setter \<Rightarrow> ('a \<Rightarrow> 'v) \<Rightarrow> (('v \<Rightarrow> 'v) \<Rightarrow> 'a \<Rightarrow> 'a) \<Rightarrow> 'a setter" where
  "nested set_v get upd j s =
     (case set_v j (get s) of
        Inl err \<Rightarrow> Inl err
      | Inr (e, v) \<Rightarrow> Inr (e, upd (\<lambda>_. v) s))"

definition set_Time :: "Time setter" where
  "set_Time j t = (case Time_UnmarshalJSON j of Inl err \<Rightarrow> Inl err | Inr t' \<Rightarrow> Inr (None, t'))"

definition set_DNSRecords :: "DNSRecords setter" where
  "set_DNSRecords j r =
     (case DNSRecords_UnmarshalJSON r j of Inl err \<Rightarrow> Inl err | Inr r' \<Rightarrow> Inr (None, r'))"

definition Audit_fields :: "(string \<times> Audit setter) list" where
  "Audit_fields =
     [(''createdDate'', nested set_Time CreatedDate CreatedDate_update),
      (''updatedDate'', nested set_Time UpdatedDate UpdatedDate_update)]"

definition DNSLookupResponse_fields :: "(string \<times> DNSLookupResponse setter) list" where
  "DNSLookupResponse_fields =
     [(''domainName'', plain store_string DomainName DomainName_update),
      (''types'', plain (store_slice ''[]int'' store_int 0) Types Types_update),
      (''dnsTypes'', plain store_string DNSTypes DNSTypes_update),
      (''audit'', nested (into_struct ''dnslookupapi.Audit'' Audit_fields) Audit Audit_update),
      (''dnsRecords'', nested set_DNSRecords DNSRecords DNSRecords_update)]"

definition ErrorMessage_fields :: "(string \<times> ErrorMessage setter) list" where
  "ErrorMessage_fields =
     [(''errorCode'', plain store_string Code Code_update),
      (''msg'', plain store_string Message Message_update)]"

definition apiResponse_fields :: "(string \<times> apiResponse setter) list" where
  "apiResponse_fields =
     [(''DNSData'',
       nested (into_struct ''dnslookupapi.DNSLookupResponse'' DNSLookupResponse_fields)
         DNSLookupResponse DNSLookupResponse_update),
      (''ErrorMessage'',
       nested (into_struct ''dnslookupapi.ErrorMessage'' ErrorMessage_fields) ErrorMessage ErrorMessage_update)]"

subsection \<open>The service\<close>

text \<open>
  \<^verbatim>\<open>request\<close> in two parts. \<open>prepare\<close> is its first part: the request as it is handed to
  \<^verbatim>\<open>Client.Do\<close>, with the query parameters set and the options applied in order.
\<close>

definition prepare :: "dnsLookupServiceOp \<Rightarrow> string \<Rightarrow> Option list \<Rightarrow> error + http_Request" where
  "prepare service domainName opts =
     (case newRequest service of
        Inl err \<Rightarrow> Inl err
      | Inr req \<Rightarrow>
          (let q0 = URL_Query (URL req);
               q1 = Values_Set ''domainName'' domainName q0;
               q2 = Values_Set ''type'' ''_all'' q1;
               q = foldl (\<lambda>q opt. opt q) q2 opts
           in Inr (req\<lparr>URL := (URL req)\<lparr>RawQuery := Values_Encode q\<rparr>\<rparr>)))"

definition request ::
  "dnsLookupServiceOp \<Rightarrow> string \<Rightarrow> Option list \<Rightarrow> Response option \<times> error option" where
  "request service domainName opts =
     (case prepare service domainName opts of
        Inl err \<Rightarrow> (None, Some err)
      | Inr req \<Rightarrow>
          (case Client_Do (client service) req of
             (resp, b, Some err) \<Rightarrow> (Some \<lparr>HTTPResponse = resp, Body = b\<rparr>, Some err)
           | (resp, b, None) \<Rightarrow> (Some \<lparr>HTTPResponse = resp, Body = b\<rparr>, None)))"

text \<open>
  \<^verbatim>\<open>parse\<close> reads the first JSON value of the body with a \<^verbatim>\<open>json.Decoder\<close> and decodes it
  into an \<^verbatim>\<open>apiResponse\<close>. The scanner of the decoder is the parameter \<open>scan\<close>: it returns
  the tree of the first JSON value of the bytes, or the error of the scanner.
\<close>

definition parse :: "(string \<Rightarrow> error + json) \<Rightarrow> string \<Rightarrow> error + apiResponse" where
  "parse scan raw =
     (case scan raw of
        Inl err \<Rightarrow> Inl (Errorf ''cannot parse response'' err)
      | Inr j \<Rightarrow>
          (case json_Unmarshal (into_struct ''dnslookupapi.apiResponse'' apiResponse_fields) j apiResponse_zero of
             Inl err \<Rightarrow> Inl (Errorf ''cannot parse response'' err)
           | Inr response \<Rightarrow> Inr response))"

text \<open>
  \<^verbatim>\<open>Get\<close> returns the lookup response, the raw response and the error. A use of a
  \<^verbatim>\<open>nil\<close> response would panic.
\<close>

definition Get ::
  "(string \<Rightarrow> error + json) \<Rightarrow> dnsLookupServiceOp \<Rightarrow> string \<Rightarrow> Option list \<Rightarrow>
     DNSLookupResponse option \<times> Response option \<times> error option" where
  "Get scan service domainName opts =
     (let optsJSON = opts @ [OptionOutputFormat ''JSON''] in
      case request service domainName optsJSON of
        (resp, Some err) \<Rightarrow> (None, resp, Some err)
      | (None, None) \<Rightarrow> (None, None, Some (Panic ''nil pointer dereference''))
      | (Some resp, None) \<Rightarrow>
          (case parse scan (Body resp) of
             Inl err \<Rightarrow> (None, Some resp, Some err)
           | Inr dnsLookupResp \<Rightarrow>
               (if Message (ErrorMessage dnsLookupResp) \<noteq> '''' \<or> Code (ErrorMessage dnsLookupResp) \<noteq> ''''
                then (None, None,
                      Some (ErrorMessage_error
                             \<lparr>Code = Code (ErrorMessage dnsLookupResp),
                              Message = Message (ErrorMessage dnsLookupResp)\<rparr>))
                else (Some (DNSLookupResponse dnsLookupResp), Some resp, None))))"

definition GetRaw ::
  "dnsLookupServiceOp \<Rightarrow> string \<Rightarrow> Option list \<Rightarrow> Response option \<times> error option" where
  "GetRaw service domainName opts =
     (case request service domainName opts of
        (resp, Some err) \<Rightarrow> (resp, Some err)
      | (None, None) \<Rightarrow> (None, Some (Panic ''nil pointer dereference''))
      | (Some resp, None) \<Rightarrow>
          (case HTTPResponse resp of
             None \<Rightarrow> (Some resp, Some (Panic ''nil pointer dereference''))
           | Some r \<Rightarrow>
               (case checkResponse r of
                  Some respErr \<Rightarrow> (Some resp, Some respErr)
                | None \<Rightarrow> (Some resp, None))))"

text \<open>The request that \<^verbatim>\<open>request\<close> hands to \<^verbatim>\<open>Client.Do\<close> when the base URL parses, written out.\<close>

definition prepared :: "dnsLookupServiceOp \<Rightarrow> string \<Rightarrow> Option list \<Rightarrow> http_Request" where
  "prepared service domainName opts =
     \<lparr>Method = ''GET'',
      URL = (baseURL service)\<lparr>RawQuery :=
              Values_Encode (foldl (\<lambda>q opt. opt q)
                (Values_Set ''type'' ''_all''
                  (Values_Set ''domainName'' domainName
                    (Values_Encode (Values_Set ''apiKey'' (apiKey (client service)) Map.empty))))
                opts)\<rparr>,
      Header = [(''Content-Type'', mediaType), (''Accept'', mediaType),
                (''User-Agent'', userAgent (client service))]\<rparr>"

subsection \<open>Sample exchanges\<close>

text \<open>
  Two bodies as the service sends them, with the trees of their JSON text; a scanner that
  knows these two bodies; and a service whose HTTP client answers every request with a
  given status and body.
\<close>

definition error_body :: string where
  \<open>error_body = ''{"ErrorMessage":{"errorCode":"TEST_CODE","msg":"test error message"}}''\<close>

definition error_tree :: json where
  "error_tree =
     JObject
       [(''ErrorMessage'',
         JObject [(''errorCode'', JString ''TEST_CODE''), (''msg'', JString ''test error message'')])]"

definition ok_body :: string where
  \<open>ok_body = ''{"DNSData":{"domainName":"whoisxmlapi.com","types":[1],"dnsTypes":"A","audit":{"createdDate":"2022-07-12 11:46:25 UTC","updatedDate":"2022-07-12 11:46:25 UTC"},"dnsRecords":[{"type":1,"dnsType":"A","name":"whoisxmlapi.com.","ttl":300,"rRsetType":1,"address":"172.67.71.123"}]}}''\<close>

definition ok_tree :: json where
  "ok_tree =
     JObject
       [(''DNSData'',
         JObject
           [(''domainName'', JString ''whoisxmlapi.com''),
            (''types'', JArray [JInt 1]),
            (''dnsTypes'', JString ''A''),
            (''audit'',
             JObject
               [(''createdDate'', JString ''2022-07-12 11:46:25 UTC''),
                (''updatedDate'', JString ''2022-07-12 11:46:25 UTC'')]),
            (''dnsRecords'', JArray [a_record_example])])]"


definition error_response :: apiResponse where
  "error_response =
     apiResponse_zero\<lparr>ErrorMessage := \<lparr>Code = ''TEST_CODE'', Message = ''test error message''\<rparr>\<rparr>"

definition sample_scan :: "string \<Rightarrow> error + json" where
  "sample_scan b =
     (if b = error_body then Inr error_tree
      else if b = ok_body then Inr ok_tree
      else Inl (SyntaxError ''invalid character''))"

definition sample_service :: "int \<Rightarrow> string \<Rightarrow> dnsLookupServiceOp" where
  "sample_service status body =
     \<lparr>client =
        \<lparr>httpClient = (\<lambda>req. Responded \<lparr>StatusCode = status\<rparr> body None None),
         userAgent = ''dns-lookup-go/1.0.0'',
         apiKey = ''at_LoremIpsumDolorSitAmetConsect''\<rparr>,
      baseURL =
        \<lparr>Location = ''https://www.whoisxmlapi.com/whoisserver/DNSService'', RawQuery = Map.empty,
         Unparsable = None\<rparr>\<rparr>"

text \<open>
  A service whose HTTP client answers every request with a given status and body, where
  the body is read to its end and closing it fails.
\<close>

definition close_error_service :: "int \<Rightarrow> string \<Rightarrow> dnsLookupServiceOp" where
  "close_error_service status body =
     \<lparr>client =
        \<lparr>httpClient =
           (\<lambda>req. Responded \<lparr>StatusCode = status\<rparr> body None (Some (Failure ''close failed''))),
         userAgent = ''dns-lookup-go/1.0.0'',
         apiKey = ''at_LoremIpsumDolorSitAmetConsect''\<rparr>,
      baseURL =
        \<lparr>Location = ''https://www.whoisxmlapi.com/whoisserver/DNSService'', RawQuery = Map.empty,
         Unparsable = None\<rparr>\<rparr>"

text \<open>An HTTP client that refuses the requests that ask for \<^verbatim>\<open>JSON\<close> and answers the others.\<close>

definition refuse_JSON :: "http_Request \<Rightarrow> exchange" where
  "refuse_JSON req =
     (if RawQuery (URL req) ''outputFormat'' = Some [''JSON'']
      then NoResponse (Failure ''refused'')
      else Responded \<lparr>StatusCode = 200\<rparr> ok_body None None)"

section \<open>Facts about the record decoder\<close>

lemma first_error_None [simp]: "first_error e None = e"
  by (cases e) simp_all

text \<open>The two tables agree: the shape made for a tag is the one the final switch expects.\<close>

lemma actualDNSType_tag: "actualDNSType t = Some a \<Longrightarrow> tag_of a = t"
  unfolding actualDNSType_def by (auto split: if_splits)

lemma Unmarshal_actual_tag: "Unmarshal_actual x a = Inr v \<Longrightarrow> tag_of v = tag_of a"
  unfolding Unmarshal_actual_def by (cases a) (auto simp: map_sum_def split: sum.splits)

lemma append_by_DNSType_push: "append_by_DNSType (tag_of v) v r = Inr (push v r)"
  by (cases v) (simp_all add: append_by_DNSType_def)

lemma All_push [simp]: "All' (push v r) = All' r"
  by (cases v) simp_all

lemma typed_push: "typed t (push v r) = typed t r @ (if tag_of v = t then [v] else [])"
  by (cases v) (simp_all add: typed_def)

lemma typed_total_push: "typed_total (push v r) = Suc (typed_total r)"
  by (cases v) (simp_all add: typed_total_def)

lemma typed_All_update [simp]: "typed t (r\<lparr>All' := ds\<rparr>) = typed t r"
  by (simp add: typed_def)

lemma typed_total_All_update [simp]: "typed_total (r\<lparr>All' := ds\<rparr>) = typed_total r"
  by (simp add: typed_total_def)

text \<open>One call of \<^verbatim>\<open>parseRecord\<close> never panics; it returns the entry of the element.\<close>

lemma parseRecord_eq: "parseRecord r x = Inr (collect r x, entry x)"
proof (cases "envelope x")
  case (Inl e)
  then show ?thesis
    by (simp add: parseRecord_def collect_def entry_def full_decode_def envelope_def)
next
  case (Inr obj)
  note env = this
  show ?thesis
  proof (cases "actualDNSType (DNSType obj)")
    case None
    with env show ?thesis
      by (simp add: parseRecord_def collect_def entry_def full_decode_def envelope_def)
  next
    case (Some a)
    note act = this
    show ?thesis
    proof (cases "Unmarshal_actual x a")
      case (Inl e)
      with env act show ?thesis
        by (simp add: parseRecord_def collect_def entry_def full_decode_def envelope_def)
    next
      case (Inr v)
      have "tag_of v = DNSType obj"
        using actualDNSType_tag [OF act] Unmarshal_actual_tag [OF Inr] by simp
      then have "append_by_DNSType (DNSType obj) v r = Inr (push v r)"
        using append_by_DNSType_push [of v r] by simp
      with env act Inr show ?thesis
        by (simp add: parseRecord_def collect_def entry_def full_decode_def envelope_def)
    qed
  qed
qed

lemma Raw_entry [simp]: "Raw (entry x) = x"
  by (simp add: entry_def split: sum.splits)

lemma map_Raw_entry [simp]: "map Raw (map entry xs) = xs"
  by (induction xs) simp_all

lemma All_collect [simp]: "All' (collect r x) = All' r"
  by (simp add: collect_def split: option.splits)

lemma typed_collect:
  "typed t (collect r x) = typed t r @ filter (\<lambda>v. tag_of v = t) (List.map_filter full_decode [x])"
  by (simp add: collect_def typed_push List.map_filter_def split: option.splits)

lemma typed_total_collect:
  "typed_total (collect r x) = typed_total r + length (List.map_filter full_decode [x])"
  by (simp add: collect_def typed_total_push List.map_filter_def split: option.splits)

lemma parseRecords_eq:
  "\<exists>r'. parseRecords r xs = Inr r' \<and> All' r' = All' r @ map entry xs \<and>
     (\<forall>t. typed t r' = typed t r @ filter (\<lambda>v. tag_of v = t) (List.map_filter full_decode xs)) \<and>
     typed_total r' = typed_total r + length (List.map_filter full_decode xs)"
proof (induction xs arbitrary: r)
  case Nil
  then show ?case by (simp add: List.map_filter_def)
next
  case (Cons x xs)
  let ?r1 = "(collect r x)\<lparr>All' := All' (collect r x) @ [entry x]\<rparr>"
  obtain r' where r': "parseRecords ?r1 xs = Inr r'" "All' r' = All' ?r1 @ map entry xs"
    "\<forall>t. typed t r' = typed t ?r1 @ filter (\<lambda>v. tag_of v = t) (List.map_filter full_decode xs)"
    "typed_total r' = typed_total ?r1 + length (List.map_filter full_decode xs)"
    using Cons.IH [of ?r1] by blast
  have "parseRecords r (x # xs) = Inr r'"
    using r'(1) by (simp add: parseRecord_eq)
  moreover have "All' r' = All' r @ map entry (x # xs)"
    using r'(2) by simp
  moreover have
    "\<forall>t. typed t r' = typed t r @ filter (\<lambda>v. tag_of v = t) (List.map_filter full_decode (x # xs))"
    using r'(3) by (simp add: typed_collect List.map_filter_def)
  moreover have "typed_total r' = typed_total r + length (List.map_filter full_decode (x # xs))"
    using r'(4) by (simp add: typed_total_collect List.map_filter_def)
  ultimately show ?case by blast
qed

lemma full_decode_as_eq:
  "full_decode_as t x =
     (case full_decode x of None \<Rightarrow> None | Some v \<Rightarrow> if tag_of v = t then Some v else None)"
proof (cases "envelope x")
  case (Inl e)
  then show ?thesis by (simp add: full_decode_as_def full_decode_def)
next
  case (Inr obj)
  note env = this
  show ?thesis
  proof (cases "actualDNSType (DNSType obj)")
    case None
    with env show ?thesis by (auto simp: full_decode_as_def full_decode_def)
  next
    case (Some a)
    note act = this
    show ?thesis
    proof (cases "Unmarshal_actual x a")
      case (Inl e)
      with env act show ?thesis by (auto simp: full_decode_as_def full_decode_def)
    next
      case (Inr v)
      have "tag_of v = DNSType obj"
        using actualDNSType_tag [OF act] Unmarshal_actual_tag [OF Inr] by simp
      with env act Inr show ?thesis by (auto simp: full_decode_as_def full_decode_def)
    qed
  qed
qed

lemma map_filter_full_decode_as:
  "List.map_filter (full_decode_as t) xs =
     filter (\<lambda>v. tag_of v = t) (List.map_filter full_decode xs)"
  by (induction xs) (auto simp: List.map_filter_def full_decode_as_eq split: option.splits)

lemma store_elems_RawMessage: "store_elems store_RawMessage z xs = (None, xs)"
  by (induction xs) (simp_all add: store_RawMessage_def)

lemma UnmarshalJSON_array: "DNSRecords_UnmarshalJSON r (JArray xs) = parseRecords r xs"
  by (simp add: DNSRecords_UnmarshalJSON_def json_Unmarshal_def store_slice_def
      store_elems_RawMessage)

lemma length_map_filter_le: "length (List.map_filter f xs) \<le> length xs"
  by (simp add: List.map_filter_def)

lemma typed_zero [simp]: "typed t DNSRecords_zero = []"
  by (simp add: typed_def DNSRecords_zero_def)

lemma typed_total_zero [simp]: "typed_total DNSRecords_zero = 0"
  by (simp add: typed_total_def DNSRecords_zero_def)

lemma All_zero [simp]: "All' DNSRecords_zero = []"
  by (simp add: DNSRecords_zero_def)

lemmas decode_defs =
  json_Unmarshal_def into_struct_def find_field_def plain_def store_int_def store_string_def
  upper_byte_def commonFields_fields_def commonFields_zero_def

text \<open>
  An element without typed value leaves the typed lists alone; so does a whole list of
  such elements.
\<close>

lemma parseRecords_no_typed:
  "\<forall>x\<in>set xs. full_decode x = None \<Longrightarrow>
     parseRecords r xs = Inr (r\<lparr>All' := All' r @ map entry xs\<rparr>)"
proof (induction xs arbitrary: r)
  case Nil
  then show ?case by simp
next
  case (Cons x xs)
  then have "collect r x = r"
    by (simp add: collect_def)
  with Cons show ?case
    by (simp add: parseRecord_eq)
qed

text \<open>
  The object that \<^verbatim>\<open>json.Marshal\<close> makes of a flat entry has the keys \<^verbatim>\<open>CommonFields\<close>,
  \<^verbatim>\<open>raw\<close> and \<^verbatim>\<open>parseError\<close>. None of them names a common field, so as an element of the
  input it decodes to the empty envelope, whose tag \<^verbatim>\<open>""\<close> is not in the table.
\<close>

lemma envelope_wrapper: "envelope (Marshal_DNSRecord d) = Inr commonFields_zero"
  by (simp add: Marshal_DNSRecord_def envelope_def decode_defs)

lemma entry_wrapper:
  "entry (Marshal_DNSRecord d) =
     \<lparr>CommonFields = commonFields_zero, Raw = Marshal_DNSRecord d,
      ParseError' = Some ErrUnsupportedDNSType\<rparr>"
  by (simp add: entry_def envelope_wrapper actualDNSType_def commonFields_zero_def)

lemma full_decode_wrapper: "full_decode (Marshal_DNSRecord d) = None"
  by (simp add: full_decode_def envelope_wrapper actualDNSType_def commonFields_zero_def)

lemma a_record_step1:
  "DNSRecords_UnmarshalJSON DNSRecords_zero (JArray [a_record_example]) = Inr a_record_decoded"
  by (simp add: UnmarshalJSON_array parseRecord_def a_record_example_def a_record_decoded_def
      a_record_envelope_def decode_defs actualDNSType_def Unmarshal_actual_def ARecord_fields_def
      ARecord_zero_def append_by_DNSType_def DNSRecords_zero_def)

lemma a_record_step2: "DNSRecords_MarshalJSON a_record_decoded = Inr (JArray [a_record_encoded])"
  by (simp add: DNSRecords_MarshalJSON_def as_slice_def Marshal_DNSRecord_def
      Marshal_commonFields_def a_record_decoded_def a_record_encoded_def a_record_envelope_def
      DNSRecords_zero_def)

lemma a_record_step3:
  "DNSRecords_UnmarshalJSON DNSRecords_zero (JArray [a_record_encoded]) = Inr a_record_redecoded"
  by (simp add: UnmarshalJSON_array parseRecord_def a_record_encoded_def a_record_redecoded_def
      decode_defs actualDNSType_def DNSRecords_zero_def)

lemma unknown_tag_envelope:
  "envelope unknown_tag_example = Inr unknown_tag_envelope"
  by (simp add: unknown_tag_example_def unknown_tag_envelope_def envelope_def decode_defs)

lemma unknown_tag_actual: "actualDNSType (DNSType unknown_tag_envelope) = None"
  by (simp add: actualDNSType_def unknown_tag_envelope_def)

section \<open>Facts about the codec of timestamps and the client\<close>


lemma ToUpper_JSON: "ToUpper ''JSON'' = ''JSON''"
  by (simp add: ToUpper_def upper_byte_def)

lemma prepare_eq:
  "prepare service domainName opts =
     (case Unparsable (baseURL service) of
        Some err \<Rightarrow> Inl err
      | None \<Rightarrow> Inr (prepared service domainName opts))"
  by (simp add: prepare_def prepared_def newRequest_def Client_NewRequest_def http_NewRequest_def
      URL_Query_def Let_def split: option.splits)

lemma prepare_ok:
  "Unparsable (baseURL service) = None \<Longrightarrow>
     prepare service domainName opts = Inr (prepared service domainName opts)"
  by (simp add: prepare_eq)

lemma prepare_httpClient:
  "prepare (service\<lparr>client := (client service)\<lparr>httpClient := h\<rparr>\<rparr>) domainName opts =
   prepare service domainName opts"
  by (simp add: prepare_eq prepared_def split: option.splits)

lemma prepared_outputFormat:
  "RawQuery (URL (prepared service domainName (opts @ [OptionOutputFormat ''JSON'']))) ''outputFormat'' =
     Some [''JSON'']"
  by (simp add: prepared_def OptionOutputFormat_def Values_Set_def Values_Encode_def ToUpper_JSON)

lemma sample_Unparsable: "Unparsable (baseURL (sample_service status body)) = None"
  by (simp add: sample_service_def)

lemmas sample_prepare = prepare_ok [OF sample_Unparsable]

lemma parse_error_body: "parse sample_scan error_body = Inr error_response"
  by (simp add: parse_def sample_scan_def error_tree_def error_response_def apiResponse_zero_def
      apiResponse_fields_def ErrorMessage_fields_def nested_def decode_defs)



lemma sample_httpClient:
  "httpClient (client (sample_service status body)) req =
     Responded \<lparr>StatusCode = status\<rparr> body None None"
  by (simp add: sample_service_def)

lemma close_error_Unparsable: "Unparsable (baseURL (close_error_service status body)) = None"
  by (simp add: close_error_service_def)

lemmas close_error_prepare = prepare_ok [OF close_error_Unparsable]

lemma close_error_httpClient:
  "httpClient (client (close_error_service status body)) req =
     Responded \<lparr>StatusCode = status\<rparr> body None (Some (Failure ''close failed''))"
  by (simp add: close_error_service_def)

lemma Error_text_500:
  "Error_text (ErrorResponse_error \<lparr>Response = \<lparr>StatusCode = 500\<rparr>, Message' = ''''\<rparr>) =
     ''API failed with status code: 500''"
  by code_simp

text \<open>
  When \<^verbatim>\<open>Client.Do\<close> fails, \<^verbatim>\<open>request\<close> returns its error with what there is of the
  response, and both \<^verbatim>\<open>GetRaw\<close> and \<^verbatim>\<open>Get\<close> pass that on without looking at the status or
  the body: the error of the HTTP client, else the error of reading the body, else the
  error of closing it.
\<close>

lemma request_Do_error:
  assumes "prepare service domainName opts = Inr req"
    and "Client_Do (client service) req = (resp, b, Some err)"
  shows "request service domainName opts = (Some \<lparr>HTTPResponse = resp, Body = b\<rparr>, Some err)"
  using assms by (simp add: request_def)

lemma GetRaw_Do_error:
  assumes "prepare service domainName opts = Inr req"
    and "Client_Do (client service) req = (resp, b, Some err)"
  shows "GetRaw service domainName opts = (Some \<lparr>HTTPResponse = resp, Body = b\<rparr>, Some err)"
  using assms by (simp add: GetRaw_def request_def)


lemma Client_Do_close_error:
  "httpClient c req = Responded r body None (Some rerr) \<Longrightarrow>
     Client_Do c req = (Some r, body, Some (Errorf ''cannot close response'' rerr))"
  by (simp add: Client_Do_def)

lemma Client_Do_read_error:
  "httpClient c req = Responded r body (Some err) cerr \<Longrightarrow>
     Client_Do c req = (Some r, body, Some (Errorf ''cannot read response'' err))"
  by (simp add: Client_Do_def)

section \<open>The claims about the record decoder\<close>

text \<open>
  C3, as the code has it. Decoding a JSON array gives one flat entry for each element of the
  array, in the order of the array, whether or not the element decoded: the entries
  appended to the receiver are \<open>map entry xs\<close>, and the raw message of the i-th is the i-th
  element. A top-level value that is neither an array nor \<open>null\<close> fails the whole decode
  with the type error of \<^verbatim>\<open>encoding/json\<close>. A top-level \<open>null\<close> does not fail: it leaves
  the collection as it was.
\<close>

theorem UnmarshalJSON_top_level:
  "(\<exists>r. DNSRecords_UnmarshalJSON r0 (JArray xs) = Inr r \<and>
        All' r = All' r0 @ map entry xs \<and>
        length (map entry xs) = length xs \<and>
        map Raw (map entry xs) = xs) \<and>
   DNSRecords_UnmarshalJSON r0 JNull = Inr r0 \<and>
   DNSRecords_UnmarshalJSON r0 (JObject ms) = Inl (UnmarshalTypeError ''object'' ''[]json.RawMessage'') \<and>
   DNSRecords_UnmarshalJSON r0 (JString s) = Inl (UnmarshalTypeError ''string'' ''[]json.RawMessage'') \<and>
   DNSRecords_UnmarshalJSON r0 (JInt i) = Inl (UnmarshalTypeError ''number'' ''[]json.RawMessage'') \<and>
   DNSRecords_UnmarshalJSON r0 (JDec m e) = Inl (UnmarshalTypeError ''number'' ''[]json.RawMessage'') \<and>
   DNSRecords_UnmarshalJSON r0 (JBool b) = Inl (UnmarshalTypeError ''bool'' ''[]json.RawMessage'')"
proof -
  have "\<exists>r. DNSRecords_UnmarshalJSON r0 (JArray xs) = Inr r \<and> All' r = All' r0 @ map entry xs"
    using parseRecords_eq [of r0 xs] by (auto simp: UnmarshalJSON_array)
  moreover have "DNSRecords_UnmarshalJSON r0 JNull = Inr r0"
    by (simp add: DNSRecords_UnmarshalJSON_def json_Unmarshal_def store_slice_def)
  moreover have
    "DNSRecords_UnmarshalJSON r0 (JObject ms) = Inl (UnmarshalTypeError ''object'' ''[]json.RawMessage'')"
    "DNSRecords_UnmarshalJSON r0 (JString s) = Inl (UnmarshalTypeError ''string'' ''[]json.RawMessage'')"
    "DNSRecords_UnmarshalJSON r0 (JInt i) = Inl (UnmarshalTypeError ''number'' ''[]json.RawMessage'')"
    "DNSRecords_UnmarshalJSON r0 (JDec m e) = Inl (UnmarshalTypeError ''number'' ''[]json.RawMessage'')"
    "DNSRecords_UnmarshalJSON r0 (JBool b) = Inl (UnmarshalTypeError ''bool'' ''[]json.RawMessage'')"
    by (simp_all add: DNSRecords_UnmarshalJSON_def json_Unmarshal_def store_slice_def)
  ultimately show ?thesis by (simp del: map_map)
qed

text \<open>
  C3, as the specification states it, fails for the top-level value \<open>null\<close>, which is not a
  JSON array: the decode returns no error and an empty collection.
\<close>

theorem UnmarshalJSON_null_counterexample:
  "DNSRecords_UnmarshalJSON DNSRecords_zero JNull = Inr DNSRecords_zero"
  by (simp add: DNSRecords_UnmarshalJSON_def json_Unmarshal_def store_slice_def)

text \<open>
  C2. In the collection decoded from an array, the typed list for a tag holds exactly the
  values of those elements, in the order of the input, whose envelope decodes, whose tag
  is that tag and is in the table of \<^verbatim>\<open>actualDNSType\<close>, and whose decoding into the shape
  for the tag succeeds. The lengths of all typed lists add up to the number of the elements
  with a known tag and a successful full decode, which is at most the length of the flat
  list.
\<close>

theorem typed_lists_invariant:
  "\<exists>r. DNSRecords_UnmarshalJSON DNSRecords_zero (JArray xs) = Inr r \<and>
       (\<forall>t. typed t r = List.map_filter (full_decode_as t) xs) \<and>
       typed_total r = length (List.map_filter full_decode xs) \<and>
       typed_total r \<le> length (All' r)"
proof -
  obtain r where r: "parseRecords DNSRecords_zero xs = Inr r"
    "All' r = All' DNSRecords_zero @ map entry xs"
    "\<forall>t. typed t r =
       typed t DNSRecords_zero @ filter (\<lambda>v. tag_of v = t) (List.map_filter full_decode xs)"
    "typed_total r = typed_total DNSRecords_zero + length (List.map_filter full_decode xs)"
    using parseRecords_eq [of DNSRecords_zero xs] by blast
  have "typed_total r \<le> length (All' r)"
    using r(2,4) length_map_filter_le [of full_decode xs] by simp
  with r show ?thesis
    by (simp add: UnmarshalJSON_array map_filter_full_decode_as)
qed

text \<open>
  C4. For an element of the array whose envelope decodes to \<open>obj\<close> and whose tag is not in
  the table of \<^verbatim>\<open>actualDNSType\<close>: \<^verbatim>\<open>parseRecord\<close> returns the entry with the envelope
  \<open>obj\<close>, the element itself as raw message and the sentinel \<^verbatim>\<open>ErrUnsupportedDNSType\<close>, and
  leaves its receiver, hence every typed list, as it was; that entry stands at the
  element's position in the flat list; and the element has no typed value.
\<close>

theorem unsupported_type:
  assumes "i < length xs"
    and "envelope (xs ! i) = Inr obj"
    and "actualDNSType (DNSType obj) = None"
  shows "parseRecord r0 (xs ! i) =
           Inr (r0, \<lparr>CommonFields = obj, Raw = xs ! i, ParseError' = Some ErrUnsupportedDNSType\<rparr>) \<and>
         (\<exists>r. DNSRecords_UnmarshalJSON DNSRecords_zero (JArray xs) = Inr r \<and>
              All' r ! i =
                \<lparr>CommonFields = obj, Raw = xs ! i, ParseError' = Some ErrUnsupportedDNSType\<rparr>) \<and>
         full_decode (xs ! i) = None"
proof -
  have e: "entry (xs ! i) =
      \<lparr>CommonFields = obj, Raw = xs ! i, ParseError' = Some ErrUnsupportedDNSType\<rparr>"
    using assms(2,3) by (simp add: entry_def)
  have f: "full_decode (xs ! i) = None"
    using assms(2,3) by (simp add: full_decode_def)
  have "parseRecord r0 (xs ! i) = Inr (r0, entry (xs ! i))"
    using f by (simp add: parseRecord_eq collect_def)
  moreover obtain r where "DNSRecords_UnmarshalJSON DNSRecords_zero (JArray xs) = Inr r"
    "All' r = map entry xs"
    using parseRecords_eq [of DNSRecords_zero xs] by (auto simp: UnmarshalJSON_array)
  ultimately show ?thesis
    using e f assms(1) by auto
qed

theorem unsupported_type_witness:
  "(1::nat) < length [a_record_example, unknown_tag_example] \<and>
   envelope ([a_record_example, unknown_tag_example] ! 1) = Inr unknown_tag_envelope \<and>
   actualDNSType (DNSType unknown_tag_envelope) = None \<and>
   parseRecord a_record_decoded unknown_tag_example =
     Inr (a_record_decoded,
          \<lparr>CommonFields = unknown_tag_envelope, Raw = unknown_tag_example,
           ParseError' = Some ErrUnsupportedDNSType\<rparr>) \<and>
   (\<exists>r. DNSRecords_UnmarshalJSON DNSRecords_zero (JArray [a_record_example, unknown_tag_example]) = Inr r \<and>
        All' r ! 1 =
          \<lparr>CommonFields = unknown_tag_envelope, Raw = unknown_tag_example,
           ParseError' = Some ErrUnsupportedDNSType\<rparr>) \<and>
   full_decode unknown_tag_example = None"
proof -
  have h1: "(1::nat) < length [a_record_example, unknown_tag_example]" by simp
  have h2: "envelope ([a_record_example, unknown_tag_example] ! 1) = Inr unknown_tag_envelope"
    by (simp add: unknown_tag_envelope)
  show ?thesis
    using unsupported_type [OF h1 h2 unknown_tag_actual, of a_record_decoded] h2 unknown_tag_actual
    by simp
qed

text \<open>
  C9. Decoding the empty array gives the empty collection: no flat entry, no typed value.
  A collection whose flat list is empty is encoded as the empty array \<^verbatim>\<open>[]\<close>, whatever
  its typed lists hold, and not as \<^verbatim>\<open>null\<close>. That is the work of the test for the
  length at the head of \<^verbatim>\<open>MarshalJSON\<close>: the flat list of the empty collection is the
  \<^verbatim>\<open>nil\<close> slice, for which \<^verbatim>\<open>json.Marshal\<close> alone returns \<^verbatim>\<open>null\<close>.
\<close>

theorem empty_collection:
  "DNSRecords_UnmarshalJSON DNSRecords_zero (JArray []) = Inr DNSRecords_zero \<and>
   All' DNSRecords_zero = [] \<and> typed_total DNSRecords_zero = 0 \<and>
   DNSRecords_MarshalJSON (r\<lparr>All' := []\<rparr>) = Inr (JArray []) \<and>
   DNSRecords_MarshalJSON (r\<lparr>All' := []\<rparr>) \<noteq> Inr JNull \<and>
   as_slice (All' DNSRecords_zero) = nil \<and>
   json_Marshal_All (as_slice (All' (r\<lparr>All' := []\<rparr>))) = Inr JNull"
  by (simp add: UnmarshalJSON_array DNSRecords_MarshalJSON_def as_slice_def)

text \<open>
  C1, as the code has it. A collection decoded from an array is encoded as an array with
  one object for each flat entry, in order: the envelope under \<^verbatim>\<open>CommonFields\<close>, the raw
  message under \<^verbatim>\<open>raw\<close> and the error under \<^verbatim>\<open>parseError\<close>, \<open>null\<close> when there is none.
  Decoding that array again gives a flat list of the same length, and no typed value: each
  entry has the empty envelope, the unsupported-type error, and as its raw message the
  whole object of the encoding, inside which the original envelope and raw message are kept.
\<close>

theorem reencode_redecode:
  "\<exists>r. DNSRecords_UnmarshalJSON DNSRecords_zero (JArray xs) = Inr r \<and>
       DNSRecords_MarshalJSON r = Inr (JArray (map Marshal_DNSRecord (All' r))) \<and>
       DNSRecords_UnmarshalJSON DNSRecords_zero (JArray (map Marshal_DNSRecord (All' r))) =
         Inr (DNSRecords_zero
               \<lparr>All' := map (\<lambda>d. \<lparr>CommonFields = commonFields_zero, Raw = Marshal_DNSRecord d,
                                   ParseError' = Some ErrUnsupportedDNSType\<rparr>) (All' r)\<rparr>) \<and>
       map Marshal_DNSRecord (All' r) =
         map (\<lambda>x. JObject
                     [(''CommonFields'', Marshal_commonFields (CommonFields (entry x))),
                      (''raw'', x),
                      (''parseError'',
                       case ParseError' (entry x) of
                         None \<Rightarrow> JNull
                       | Some e \<Rightarrow> Marshal_error (Some e))]) xs"
proof -
  obtain r where r: "DNSRecords_UnmarshalJSON DNSRecords_zero (JArray xs) = Inr r"
    "All' r = map entry xs"
    using parseRecords_eq [of DNSRecords_zero xs] by (auto simp: UnmarshalJSON_array)
  let ?ws = "map Marshal_DNSRecord (All' r)"
  have m: "DNSRecords_MarshalJSON r = Inr (JArray ?ws)"
    by (simp add: DNSRecords_MarshalJSON_def as_slice_def)
  have "parseRecords DNSRecords_zero ?ws =
      Inr (DNSRecords_zero\<lparr>All' := All' DNSRecords_zero @ map entry ?ws\<rparr>)"
    by (rule parseRecords_no_typed) (auto simp: full_decode_wrapper)
  then have d: "DNSRecords_UnmarshalJSON DNSRecords_zero (JArray ?ws) =
      Inr (DNSRecords_zero
            \<lparr>All' := map (\<lambda>d. \<lparr>CommonFields = commonFields_zero, Raw = Marshal_DNSRecord d,
                                ParseError' = Some ErrUnsupportedDNSType\<rparr>) (All' r)\<rparr>)"
    by (simp add: UnmarshalJSON_array entry_wrapper)
  have w: "map Marshal_DNSRecord (All' r) =
         map (\<lambda>x. JObject
                     [(''CommonFields'', Marshal_commonFields (CommonFields (entry x))),
                      (''raw'', x),
                      (''parseError'',
                       case ParseError' (entry x) of
                         None \<Rightarrow> JNull
                       | Some e \<Rightarrow> Marshal_error (Some e))]) xs"
    by (simp add: r(2) Marshal_DNSRecord_def split: option.splits)
  show ?thesis
    using r(1) m d w by blast
qed

text \<open>
  C1, as the specification states it, fails for the array that holds one \<^verbatim>\<open>A\<close> record:
  after encoding and decoding again, the envelope of the entry is empty and its raw message
  is the object of the encoding, not the record.
\<close>

theorem roundtrip_counterexample:
  "DNSRecords_UnmarshalJSON DNSRecords_zero (JArray [a_record_example]) = Inr a_record_decoded \<and>
   DNSRecords_MarshalJSON a_record_decoded = Inr (JArray [a_record_encoded]) \<and>
   DNSRecords_UnmarshalJSON DNSRecords_zero (JArray [a_record_encoded]) = Inr a_record_redecoded \<and>
   map CommonFields (All' a_record_redecoded) \<noteq> map CommonFields (All' a_record_decoded) \<and>
   map Raw (All' a_record_redecoded) \<noteq> map Raw (All' a_record_decoded)"
proof -
  have "map CommonFields (All' a_record_redecoded) \<noteq> map CommonFields (All' a_record_decoded)"
    by (simp add: a_record_redecoded_def a_record_decoded_def a_record_envelope_def
        commonFields_zero_def DNSRecords_zero_def)
  moreover have "map Raw (All' a_record_redecoded) \<noteq> map Raw (All' a_record_decoded)"
    by (simp add: a_record_redecoded_def a_record_decoded_def a_record_encoded_def
        a_record_example_def DNSRecords_zero_def)
  ultimately show ?thesis
    using a_record_step1 a_record_step2 a_record_step3 by simp
qed

section \<open>The claim about the codec of timestamps\<close>


section \<open>The claims about the client\<close>

text \<open>
  C5. Whatever options the caller gives to \<^verbatim>\<open>Get\<close>, one that sets another output format
  included, there is one request, with the query parameter \<^verbatim>\<open>outputFormat\<close> of the single
  value \<^verbatim>\<open>JSON\<close>, that \<^verbatim>\<open>Get\<close> hands to the HTTP client, and no other: for every HTTP
  client, the result of \<^verbatim>\<open>Get\<close> is its result for the client that gives to every request
  the answer of the first to this one request; and when the HTTP client refuses this
  request, \<^verbatim>\<open>Get\<close> returns that refusal. (When the base URL of the service does not
  parse, no request can be made, and \<^verbatim>\<open>Get\<close> returns that error whatever the HTTP client
  is.)
\<close>

theorem forced_output_format:
  "case Unparsable (baseURL service) of
     Some err \<Rightarrow>
       (\<forall>h. Get scan (service\<lparr>client := (client service)\<lparr>httpClient := h\<rparr>\<rparr>) domainName opts =
              (None, None, Some err))
   | None \<Rightarrow>
       (\<exists>req. RawQuery (URL req) ''outputFormat'' = Some [''JSON''] \<and>
          (\<forall>h. Get scan (service\<lparr>client := (client service)\<lparr>httpClient := h\<rparr>\<rparr>) domainName opts =
                Get scan (service\<lparr>client := (client service)\<lparr>httpClient := (\<lambda>_. h req)\<rparr>\<rparr>)
                  domainName opts) \<and>
          (\<forall>h e. h req = NoResponse e \<longrightarrow>
                Get scan (service\<lparr>client := (client service)\<lparr>httpClient := h\<rparr>\<rparr>) domainName opts =
                  (None, Some \<lparr>HTTPResponse = None, Body = ''''\<rparr>,
                   Some (Errorf ''cannot execute request'' e))))"
proof (cases "Unparsable (baseURL service)")
  case (Some err)
  have "\<forall>h. Get scan (service\<lparr>client := (client service)\<lparr>httpClient := h\<rparr>\<rparr>) domainName opts =
             (None, None, Some err)"
    using Some by (simp add: Get_def request_def prepare_eq)
  then show ?thesis
    using Some by simp
next
  case None
  let ?req = "prepared service domainName (opts @ [OptionOutputFormat ''JSON''])"
  have p: "prepare (service\<lparr>client := (client service)\<lparr>httpClient := h\<rparr>\<rparr>) domainName
             (opts @ [OptionOutputFormat ''JSON'']) = Inr ?req" for h
    using None by (simp add: prepare_httpClient prepare_ok)
  have a: "RawQuery (URL ?req) ''outputFormat'' = Some [''JSON'']"
    by (rule prepared_outputFormat)
  have b: "\<forall>h. Get scan (service\<lparr>client := (client service)\<lparr>httpClient := h\<rparr>\<rparr>) domainName opts =
                Get scan (service\<lparr>client := (client service)\<lparr>httpClient := (\<lambda>_. h ?req)\<rparr>\<rparr>)
                  domainName opts"
    by (simp add: Get_def request_def Client_Do_def p)
  have c: "\<forall>h e. h ?req = NoResponse e \<longrightarrow>
                Get scan (service\<lparr>client := (client service)\<lparr>httpClient := h\<rparr>\<rparr>) domainName opts =
                  (None, Some \<lparr>HTTPResponse = None, Body = ''''\<rparr>,
                   Some (Errorf ''cannot execute request'' e))"
    by (simp add: Get_def request_def Client_Do_def p)
  have "\<exists>req. RawQuery (URL req) ''outputFormat'' = Some [''JSON''] \<and>
          (\<forall>h. Get scan (service\<lparr>client := (client service)\<lparr>httpClient := h\<rparr>\<rparr>) domainName opts =
                Get scan (service\<lparr>client := (client service)\<lparr>httpClient := (\<lambda>_. h req)\<rparr>\<rparr>)
                  domainName opts) \<and>
          (\<forall>h e. h req = NoResponse e \<longrightarrow>
                Get scan (service\<lparr>client := (client service)\<lparr>httpClient := h\<rparr>\<rparr>) domainName opts =
                  (None, Some \<lparr>HTTPResponse = None, Body = ''''\<rparr>,
                   Some (Errorf ''cannot execute request'' e)))"
    using a b c by (intro exI [of _ ?req] conjI)
  then show ?thesis
    using None by simp
qed

text \<open>
  The same for the call of the repository's example, where the caller asks for \<^verbatim>\<open>XML\<close>,
  and an HTTP client that refuses the requests for \<^verbatim>\<open>JSON\<close> and answers every other
  request: \<^verbatim>\<open>Get\<close> is refused.
\<close>

theorem forced_output_format_witness:
  "Get sample_scan
     ((sample_service 200 ok_body)
        \<lparr>client := (client (sample_service 200 ok_body))\<lparr>httpClient := refuse_JSON\<rparr>\<rparr>)
     ''whoisxmlapi.com'' [OptionOutputFormat ''XML''] =
     (None, Some \<lparr>HTTPResponse = None, Body = ''''\<rparr>,
      Some (Errorf ''cannot execute request'' (Failure ''refused'')))"
proof -
  obtain req where req: "RawQuery (URL req) ''outputFormat'' = Some [''JSON'']"
    and refused: "\<forall>h e. h req = NoResponse e \<longrightarrow>
      Get sample_scan
        ((sample_service 200 ok_body)\<lparr>client := (client (sample_service 200 ok_body))\<lparr>httpClient := h\<rparr>\<rparr>)
        ''whoisxmlapi.com'' [OptionOutputFormat ''XML''] =
        (None, Some \<lparr>HTTPResponse = None, Body = ''''\<rparr>,
         Some (Errorf ''cannot execute request'' e))"
    using forced_output_format
      [where service = "sample_service 200 ok_body" and domainName = "''whoisxmlapi.com''"
        and opts = "[OptionOutputFormat ''XML'']" and scan = sample_scan]
    by (auto simp: sample_Unparsable)
  have "refuse_JSON req = NoResponse (Failure ''refused'')"
    using req by (simp add: refuse_JSON_def)
  then show ?thesis
    using refused by blast
qed

text \<open>
  C6. When the exchange for the request of \<^verbatim>\<open>Get\<close> succeeds (the HTTP client returns a
  response, the body is read and closed without error), the body parses, and the error
  envelope of the parsed response has a code or a message that is not empty, then \<^verbatim>\<open>Get\<close>
  returns no lookup response and no raw response, and the error is an \<^verbatim>\<open>ErrorMessage\<close>
  with exactly that code and that message.
\<close>

theorem remote_error:
  assumes "prepare service domainName (opts @ [OptionOutputFormat ''JSON'']) = Inr req"
    and "httpClient (client service) req = Responded r body None None"
    and "parse scan body = Inr response"
    and "Code (ErrorMessage response) \<noteq> '''' \<or> Message (ErrorMessage response) \<noteq> ''''"
  shows "Get scan service domainName opts =
           (None, None,
            Some (ErrorMessage_error
                   \<lparr>Code = Code (ErrorMessage response),
                    Message = Message (ErrorMessage response)\<rparr>))"
  using assms by (auto simp: Get_def request_def Client_Do_def)

theorem remote_error_witness:
  "parse sample_scan error_body = Inr error_response \<and>
   Code (ErrorMessage error_response) = ''TEST_CODE'' \<and>
   Message (ErrorMessage error_response) = ''test error message'' \<and>
   Get sample_scan (sample_service 499 error_body) ''whoisxmlapi.com'' [] =
     (None, None,
      Some (ErrorMessage_error \<lparr>Code = ''TEST_CODE'', Message = ''test error message''\<rparr>)) \<and>
   Error_text (ErrorMessage_error \<lparr>Code = ''TEST_CODE'', Message = ''test error message''\<rparr>) =
     ''API error: [TEST_CODE] test error message''"
proof -
  have c: "Code (ErrorMessage error_response) = ''TEST_CODE''"
    "Message (ErrorMessage error_response) = ''test error message''"
    by (simp_all add: error_response_def)
  then have h: "Code (ErrorMessage error_response) \<noteq> '''' \<or> Message (ErrorMessage error_response) \<noteq> ''''"
    by simp
  show ?thesis
    using remote_error [OF sample_prepare sample_httpClient parse_error_body h] c parse_error_body
    by (simp add: ErrorMessage_Error_def)
qed

text \<open>
  C8, as the code has it. When the HTTP client returns a response for the request of
  \<^verbatim>\<open>GetRaw\<close> and the body is read without error, \<^verbatim>\<open>GetRaw\<close> returns the response with
  the body it read. If closing the body failed, the error is that of \<^verbatim>\<open>Client.Do\<close>,
  \<^verbatim>\<open>cannot close response\<close>, whatever the status code is. If closing succeeded, the error
  is an \<^verbatim>\<open>ErrorResponse\<close> with that response exactly when the status code is below 200 or
  above 299; from 200 to 299 there is no error.
\<close>

theorem raw_bad_status:
  assumes "prepare service domainName opts = Inr req"
    and "httpClient (client service) req = Responded r body None close_err"
  shows "GetRaw service domainName opts =
           (Some \<lparr>HTTPResponse = Some r, Body = body\<rparr>,
            case close_err of
              Some rerr \<Rightarrow> Some (Errorf ''cannot close response'' rerr)
            | None \<Rightarrow>
                if 200 \<le> StatusCode r \<and> StatusCode r \<le> 299 then None
                else Some (ErrorResponse_error \<lparr>Response = r, Message' = ''''\<rparr>))"
  using assms
  by (simp add: GetRaw_def request_def Client_Do_def checkResponse_def split: option.splits)

theorem raw_bad_status_witness:
  "GetRaw (sample_service 500 error_body) ''whoisxmlapi.com'' [] =
     (Some \<lparr>HTTPResponse = Some \<lparr>StatusCode = 500\<rparr>, Body = error_body\<rparr>,
      Some (ErrorResponse_error \<lparr>Response = \<lparr>StatusCode = 500\<rparr>, Message' = ''''\<rparr>)) \<and>
   Error_text (ErrorResponse_error \<lparr>Response = \<lparr>StatusCode = 500\<rparr>, Message' = ''''\<rparr>) =
     ''API failed with status code: 500'' \<and>
   GetRaw (sample_service 200 ok_body) ''whoisxmlapi.com'' [] =
     (Some \<lparr>HTTPResponse = Some \<lparr>StatusCode = 200\<rparr>, Body = ok_body\<rparr>, None) \<and>
   GetRaw (sample_service 299 ok_body) ''whoisxmlapi.com'' [] =
     (Some \<lparr>HTTPResponse = Some \<lparr>StatusCode = 299\<rparr>, Body = ok_body\<rparr>, None) \<and>
   GetRaw (sample_service 199 ok_body) ''whoisxmlapi.com'' [] =
     (Some \<lparr>HTTPResponse = Some \<lparr>StatusCode = 199\<rparr>, Body = ok_body\<rparr>,
      Some (ErrorResponse_error \<lparr>Response = \<lparr>StatusCode = 199\<rparr>, Message' = ''''\<rparr>)) \<and>
   GetRaw (close_error_service 200 ok_body) ''whoisxmlapi.com'' [] =
     (Some \<lparr>HTTPResponse = Some \<lparr>StatusCode = 200\<rparr>, Body = ok_body\<rparr>,
      Some (Errorf ''cannot close response'' (Failure ''close failed'')))"
  using raw_bad_status [OF sample_prepare sample_httpClient, of 500 error_body "''whoisxmlapi.com''" "[]"]
    raw_bad_status [OF sample_prepare sample_httpClient, of 200 ok_body "''whoisxmlapi.com''" "[]"]
    raw_bad_status [OF sample_prepare sample_httpClient, of 299 ok_body "''whoisxmlapi.com''" "[]"]
    raw_bad_status [OF sample_prepare sample_httpClient, of 199 ok_body "''whoisxmlapi.com''" "[]"]
    raw_bad_status [OF close_error_prepare close_error_httpClient, of 200 ok_body "''whoisxmlapi.com''" "[]"]
    Error_text_500
  by simp

text \<open>
  C8, as the specification states it, fails for a response of status 500 whose body is
  read to its end and whose closing fails: the exchange and the reading of the body have
  succeeded and the status code is outside 200 to 299, yet the error of \<^verbatim>\<open>GetRaw\<close> is not
  the bad-status error.
\<close>

theorem raw_bad_status_counterexample:
  "httpClient (client (close_error_service 500 error_body))
     (prepared (close_error_service 500 error_body) ''whoisxmlapi.com'' []) =
     Responded \<lparr>StatusCode = 500\<rparr> error_body None (Some (Failure ''close failed'')) \<and>
   GetRaw (close_error_service 500 error_body) ''whoisxmlapi.com'' [] =
     (Some \<lparr>HTTPResponse = Some \<lparr>StatusCode = 500\<rparr>, Body = error_body\<rparr>,
      Some (Errorf ''cannot close response'' (Failure ''close failed''))) \<and>
   snd (GetRaw (close_error_service 500 error_body) ''whoisxmlapi.com'' []) \<noteq>
     checkResponse \<lparr>StatusCode = 500\<rparr> \<and>
   checkResponse \<lparr>StatusCode = 500\<rparr> =
     Some (ErrorResponse_error \<lparr>Response = \<lparr>StatusCode = 500\<rparr>, Message' = ''''\<rparr>)"
proof -
  have "GetRaw (close_error_service 500 error_body) ''whoisxmlapi.com'' [] =
     (Some \<lparr>HTTPResponse = Some \<lparr>StatusCode = 500\<rparr>, Body = error_body\<rparr>,
      Some (Errorf ''cannot close response'' (Failure ''close failed'')))"
    using GetRaw_Do_error [OF close_error_prepare Client_Do_close_error [OF close_error_httpClient]]
    by simp
  then show ?thesis
    by (simp add: close_error_httpClient checkResponse_def)
qed




end
